theory Spec2Isabelle
  imports Complex_Main "HOL-Library.Word" "HOL-Library.Sublist"
begin

section \<open>Audio capture buffer (startMacOSAudioCapture, src/utils/gemini.js 446-475)\<close>

text \<open>
  The capture process delivers Node \<^verbatim>\<open>Buffer\<close>s on its stdout. A buffer is the list of
  its bytes. The constants are the ones declared at the top of the capture code.
  \<^verbatim>\<open>CHUNK_DURATION\<close> is the double 0.1; the double product \<^verbatim>\<open>96000 * 0.1\<close> is exactly
  9600, so \<^verbatim>\<open>CHUNK_SIZE\<close> is written with an integer division by ten.
\<close>

type_synonym byte = "8 word"
type_synonym buffer = "byte list"

definition SAMPLE_RATE :: nat where
  "SAMPLE_RATE = 24000"

definition BYTES_PER_SAMPLE :: nat where
  "BYTES_PER_SAMPLE = 2"

definition CHANNELS :: nat where
  "CHANNELS = 2"

definition CHUNK_SIZE :: nat where
  "CHUNK_SIZE = SAMPLE_RATE * BYTES_PER_SAMPLE * CHANNELS div 10"

definition maxBufferSize :: nat where
  "maxBufferSize = SAMPLE_RATE * BYTES_PER_SAMPLE * 1"

text \<open>
  \<^verbatim>\<open>buf.slice(start, end)\<close>: a negative index counts from the end of the buffer, every
  index is clamped to the buffer, and an end before the start gives the empty buffer.
  \<^verbatim>\<open>None\<close> is the omitted \<^verbatim>\<open>end\<close> argument.
\<close>

definition slice_index :: "nat \<Rightarrow> int \<Rightarrow> nat" where
  "slice_index len i = (if i < 0 then nat (max (int len + i) 0) else min (nat i) len)"

definition buffer_slice :: "'a list \<Rightarrow> int \<Rightarrow> int option \<Rightarrow> 'a list" where
  "buffer_slice buf start fin =
     (let a = slice_index (length buf) start;
          b = (case fin of None \<Rightarrow> length buf | Some e \<Rightarrow> slice_index (length buf) e)
      in take (b - a) (drop a buf))"

text \<open>
  The \<^verbatim>\<open>while (audioBuffer.length >= CHUNK_SIZE)\<close> loop. It returns the chunks in the order
  they are handed to \<^verbatim>\<open>sendAudioToGemini\<close>, and the buffer left when the loop exits.
\<close>

function extract_chunks :: "buffer \<Rightarrow> buffer list \<times> buffer" where
  "extract_chunks audioBuffer =
     (if length audioBuffer \<ge> CHUNK_SIZE then
        (case extract_chunks (buffer_slice audioBuffer (int CHUNK_SIZE) None) of
           (chunks, rest) \<Rightarrow>
             (buffer_slice audioBuffer 0 (Some (int CHUNK_SIZE)) # chunks, rest))
      else ([], audioBuffer))"
  by pat_completeness auto
termination
  by (relation "measure length")
     (auto simp: buffer_slice_def slice_index_def CHUNK_SIZE_def SAMPLE_RATE_def
        BYTES_PER_SAMPLE_def CHANNELS_def)

declare extract_chunks.simps [simp del]

text \<open>The truncation after the loop: \<^verbatim>\<open>audioBuffer.slice(-maxBufferSize)\<close> when over the cap.\<close>

definition truncate_buffer :: "buffer \<Rightarrow> buffer" where
  "truncate_buffer audioBuffer =
     (if length audioBuffer > maxBufferSize
      then buffer_slice audioBuffer (- int maxBufferSize) None
      else audioBuffer)"

text \<open>
  One \<^verbatim>\<open>'data'\<close> event: append, extract, truncate. The result is the emitted chunks and
  the new value of \<^verbatim>\<open>audioBuffer\<close>.
\<close>

definition on_data :: "buffer \<Rightarrow> buffer \<Rightarrow> buffer list \<times> buffer" where
  "on_data audioBuffer data =
     (case extract_chunks (audioBuffer @ data) of
        (chunks, rest) \<Rightarrow> (chunks, truncate_buffer rest))"

text \<open>A sequence of deliveries, starting from the buffer \<^verbatim>\<open>Buffer.alloc(0)\<close>.\<close>

fun deliveries :: "buffer \<Rightarrow> buffer list \<Rightarrow> buffer list \<times> buffer" where
  "deliveries audioBuffer [] = ([], audioBuffer)"
| "deliveries audioBuffer (data # more) =
     (case on_data audioBuffer data of
        (chunks, b) \<Rightarrow>
          (case deliveries b more of (chunks', b') \<Rightarrow> (chunks @ chunks', b')))"

definition capture :: "buffer list \<Rightarrow> buffer list \<times> buffer" where
  "capture ds = deliveries [] ds"

section \<open>Float samples to 16-bit PCM (convertFloat32ToInt16, renderer.js, src/unnamed/part_000 595-603)\<close>

text \<open>
  An element of a \<^verbatim>\<open>Float32Array\<close> is a finite number, an infinity or NaN. The function
  multiplies a clamped sample by \<^verbatim>\<open>0x8000\<close> or \<^verbatim>\<open>0x7fff\<close>; for a 32-bit float that product
  has at most 39 significant bits, so the double arithmetic of the source is exact and the
  model computes with the numbers themselves.
\<close>

datatype float32 = Finite real | PosInf | NegInf | NaN

text \<open>\<^verbatim>\<open>Math.min\<close> and \<^verbatim>\<open>Math.max\<close>: NaN when an argument is NaN.\<close>

fun math_min :: "float32 \<Rightarrow> float32 \<Rightarrow> float32" where
  "math_min NaN y = NaN"
| "math_min x NaN = NaN"
| "math_min NegInf y = NegInf"
| "math_min x NegInf = NegInf"
| "math_min PosInf y = y"
| "math_min x PosInf = x"
| "math_min (Finite a) (Finite b) = Finite (min a b)"

fun math_max :: "float32 \<Rightarrow> float32 \<Rightarrow> float32" where
  "math_max NaN y = NaN"
| "math_max x NaN = NaN"
| "math_max PosInf y = PosInf"
| "math_max x PosInf = PosInf"
| "math_max NegInf y = y"
| "math_max x NegInf = x"
| "math_max (Finite a) (Finite b) = Finite (max a b)"

text \<open>\<^verbatim>\<open>s < 0\<close>: false when \<^verbatim>\<open>s\<close> is NaN.\<close>

fun below_zero :: "float32 \<Rightarrow> bool" where
  "below_zero (Finite a) = (a < 0)"
| "below_zero NegInf = True"
| "below_zero PosInf = False"
| "below_zero NaN = False"

text \<open>\<^verbatim>\<open>s * k\<close> for a positive finite constant \<^verbatim>\<open>k\<close>.\<close>

fun times_const :: "float32 \<Rightarrow> real \<Rightarrow> float32" where
  "times_const (Finite a) k = Finite (a * k)"
| "times_const x k = x"

text \<open>
  Storing a number into an \<^verbatim>\<open>Int16Array\<close>: NaN and the infinities give 0, a finite number
  is truncated toward zero and reduced modulo \<open>2 ^ 16\<close>; \<open>sint\<close> reads the element back.
\<close>

definition trunc_toward_zero :: "real \<Rightarrow> int" where
  "trunc_toward_zero r = (if r < 0 then \<lceil>r\<rceil> else \<lfloor>r\<rfloor>)"

fun to_int16 :: "float32 \<Rightarrow> 16 word" where
  "to_int16 (Finite a) = word_of_int (trunc_toward_zero a)"
| "to_int16 x = 0"

definition convert_sample :: "float32 \<Rightarrow> 16 word" where
  "convert_sample x =
     (let s = math_max (Finite (- 1)) (math_min (Finite 1) x)
      in to_int16 (if below_zero s then times_const s 0x8000 else times_const s 0x7fff))"

definition convertFloat32ToInt16 :: "float32 list \<Rightarrow> 16 word list" where
  "convertFloat32ToInt16 float32Array = map convert_sample float32Array"

text \<open>
  The specification's reading of the conversion, to compare with \<open>convert_sample\<close>: clamp
  to \<open>[-1, 1]\<close>, scale by \<open>0x8000\<close> below zero and by \<open>0x7fff\<close> otherwise, and drop the
  fraction. It is an integer, not yet a 16-bit element.
\<close>

definition clamped_scaled :: "real \<Rightarrow> int" where
  "clamped_scaled x =
     (let s = max (- 1) (min 1 x)
      in trunc_toward_zero (s * (if s < 0 then 32768 else 32767)))"

section \<open>Session state (the module variables of src/utils/gemini.js)\<close>

text \<open>
  The file holds two versions of the module: lines 1-1179 and lines 1180-2099. The model
  follows the first. From the second it takes the message handler and the argument it
  hands to \<^verbatim>\<open>getSystemPrompt\<close>, the two places where the versions differ in what the
  properties below are about; the capture code, the reconnection controller, the error
  and close handlers and the rest of the initialization are the same in both.

  A JavaScript string is the list of its code units, below 256 in this model. A live
  session returned by the transport and a reading of \<^verbatim>\<open>Date.now()\<close> are numbers.
  \<^verbatim>\<open>currentSessionId\<close> is \<^verbatim>\<open>Date.now().toString()\<close>, kept as the number.
\<close>

record sessionParams =
  apiKey :: string
  customPrompt :: string
  profile :: string
  language :: string

record conversationTurn =
  timestamp :: nat
  transcription :: string
  ai_response :: string

type_synonym session = nat

datatype payload =
    Text string
  | Flag bool
  | Turn "nat option" conversationTurn "conversationTurn list"

text \<open>
  What the module does to the outside, in the order it does it: messages to the renderer,
  the reconnection timer, the API client and its handshake, frames sent on a session,
  closing a session, stopping the capture process.
\<close>

datatype effect =
    SendToRenderer string payload
  | SetTimeout nat
  | NewClient string
  | LiveConnect sessionParams
  | SendRealtimeInput session string
  | SessionClose session
  | StopCapture

text \<open>
  \<^verbatim>\<open>geminiSessionRef\<close> is \<^verbatim>\<open>global.geminiSessionRef\<close>: \<open>None\<close> until
  \<^verbatim>\<open>setupGeminiIpcHandlers\<close> has installed it, then \<open>Some current\<close>. The last three fields
  are variables of the second version of the file only.
\<close>

record state =
  currentSessionId :: "nat option"
  currentTranscription :: string
  conversationHistory :: "conversationTurn list"
  isInitializingSession :: bool
  messageBuffer :: string
  reconnectionAttempts :: nat
  lastSessionParams :: "sessionParams option"
  geminiSessionRef :: "session option option"
  effects :: "effect list"
  recentVoiceQuestion :: string
  voiceQuestionTimestamp :: "nat option"
  awaitingManualResponse :: bool

definition maxReconnectionAttempts :: nat where
  "maxReconnectionAttempts = 3"

definition reconnectionDelay :: nat where
  "reconnectionDelay = 2000"

text \<open>The values the module variables are declared with.\<close>

definition initial_state :: state where
  "initial_state =
     \<lparr>currentSessionId = None, currentTranscription = [], conversationHistory = [],
      isInitializingSession = False, messageBuffer = [], reconnectionAttempts = 0,
      lastSessionParams = None, geminiSessionRef = None, effects = [],
      recentVoiceQuestion = [], voiceQuestionTimestamp = None,
      awaitingManualResponse = False\<rparr>"

definition emit :: "effect \<Rightarrow> state \<Rightarrow> state" where
  "emit e s = s\<lparr>effects := effects s @ [e]\<rparr>"

definition sendToRenderer :: "string \<Rightarrow> payload \<Rightarrow> state \<Rightarrow> state" where
  "sendToRenderer channel data s = emit (SendToRenderer channel data) s"

subsection \<open>Strings\<close>

text \<open>\<^verbatim>\<open>String.prototype.trim\<close> on code units below 256, and \<^verbatim>\<open>includes\<close>, \<^verbatim>\<open>join\<close>.\<close>

definition is_white_space :: "char \<Rightarrow> bool" where
  "is_white_space c =
     (c = CHR 0x09 \<or> c = CHR 0x0A \<or> c = CHR 0x0B \<or> c = CHR 0x0C \<or> c = CHR 0x0D
      \<or> c = CHR 0x20 \<or> c = CHR 0xA0)"

definition trim :: "string \<Rightarrow> string" where
  "trim t = rev (dropWhile is_white_space (rev (dropWhile is_white_space t)))"

fun starts_with :: "string \<Rightarrow> string \<Rightarrow> bool" where
  "starts_with t [] = True"
| "starts_with [] (c # cs) = False"
| "starts_with (d # ds) (c # cs) = (d = c \<and> starts_with ds cs)"

fun str_includes :: "string \<Rightarrow> string \<Rightarrow> bool" where
  "str_includes [] sub = (sub = [])"
| "str_includes (c # cs) sub = (starts_with (c # cs) sub \<or> str_includes cs sub)"

fun join :: "string \<Rightarrow> string list \<Rightarrow> string" where
  "join sep [] = []"
| "join sep [t] = t"
| "join sep (t # u # us) = t @ sep @ join sep (u # us)"

subsection \<open>Conversation tracking (lines 18-83)\<close>

record speakerResult =
  transcript :: "string option"
  speakerId :: "nat option"

text \<open>\<^verbatim>\<open>result.transcript && result.speakerId\<close>: a non-empty string and a non-zero number.\<close>

fun formatSpeakerResults :: "speakerResult list \<Rightarrow> string" where
  "formatSpeakerResults [] = []"
| "formatSpeakerResults (result # results) =
     (case (transcript result, speakerId result) of
        (Some t, Some n) \<Rightarrow>
          (if t \<noteq> [] \<and> n \<noteq> 0
           then ''['' @ (if n = 1 then ''Interviewer'' else ''Candidate'') @ '']: '' @ t
                  @ [CHR 0x0A]
           else [])
      | _ \<Rightarrow> [])
     @ formatSpeakerResults results"

definition initializeNewSession :: "nat \<Rightarrow> state \<Rightarrow> state" where
  "initializeNewSession now s =
     s\<lparr>currentSessionId := Some now, currentTranscription := [], conversationHistory := []\<rparr>"

definition saveConversationTurn :: "nat \<Rightarrow> string \<Rightarrow> string \<Rightarrow> state \<Rightarrow> state" where
  "saveConversationTurn now transcription' aiResponse s =
     (let s1 = (if currentSessionId s = None then initializeNewSession now s else s);
          conversationTurn =
            \<lparr>timestamp = now, transcription = trim transcription', ai_response = trim aiResponse\<rparr>;
          s2 = s1\<lparr>conversationHistory := conversationHistory s1 @ [conversationTurn]\<rparr>
      in sendToRenderer ''save-conversation-turn''
           (Turn (currentSessionId s2) conversationTurn (conversationHistory s2)) s2)"

subsection \<open>The message handler (onmessage, lines 258-291 and 1521-1564)\<close>

text \<open>
  The fields of \<^verbatim>\<open>message.serverContent\<close> the handler reads: the transcription results,
  the texts of the model turn's parts (\<open>None\<close> for a part without text), and the two flags.
  A message without \<^verbatim>\<open>serverContent\<close> is \<open>None\<close>.
\<close>

record serverContent =
  inputTranscription :: "speakerResult list option"
  modelTurn :: "string option list option"
  generationComplete :: bool
  turnComplete :: bool

type_synonym message = "serverContent option"

definition append_part :: "string option \<Rightarrow> state \<Rightarrow> state" where
  "append_part part s =
     (case part of
        None \<Rightarrow> s
      | Some t \<Rightarrow>
          (if t = [] then s
           else (let s1 = s\<lparr>messageBuffer := messageBuffer s @ t\<rparr>
                 in sendToRenderer ''update-response'' (Text (messageBuffer s1)) s1)))"

text \<open>The body of \<^verbatim>\<open>if (message.serverContent?.generationComplete)\<close>, lines 277-285.\<close>

definition generation_complete :: "nat \<Rightarrow> state \<Rightarrow> state" where
  "generation_complete now s =
     (let s1 = sendToRenderer ''update-response'' (Text (messageBuffer s)) s;
          s2 = (if currentTranscription s1 \<noteq> [] \<and> messageBuffer s1 \<noteq> []
                then (saveConversationTurn now (currentTranscription s1) (messageBuffer s1) s1)
                       \<lparr>currentTranscription := []\<rparr>
                else s1)
      in s2\<lparr>messageBuffer := []\<rparr>)"

text \<open>Lines 261-274: the fragments a message carries are appended to the two buffers.\<close>

definition accumulate :: "serverContent \<Rightarrow> state \<Rightarrow> state" where
  "accumulate content s =
     (let s1 = (case inputTranscription content of
                  None \<Rightarrow> s
                | Some results \<Rightarrow>
                    s\<lparr>currentTranscription :=
                         currentTranscription s @ formatSpeakerResults results\<rparr>)
      in case modelTurn content of
           None \<Rightarrow> s1
         | Some parts \<Rightarrow> fold append_part parts s1)"

definition onmessage :: "nat \<Rightarrow> message \<Rightarrow> state \<Rightarrow> state" where
  "onmessage now message s =
     (case message of
        None \<Rightarrow> s
      | Some content \<Rightarrow>
          (let s2 = accumulate content s;
               s3 = (if generationComplete content then generation_complete now s2 else s2)
           in if turnComplete content
              then sendToRenderer ''update-status'' (Text ''Listening...'') s3
              else s3))"

text \<open>
  The second version of the handler (lines 1521-1564): a transcription that names the
  interviewer is remembered as the recent question, and the model's text and the
  completion are processed only while \<^verbatim>\<open>awaitingManualResponse\<close> is set.
\<close>

definition accumulate_manual :: "nat \<Rightarrow> serverContent \<Rightarrow> state \<Rightarrow> state" where
  "accumulate_manual now content s =
     (let s1 = (case inputTranscription content of
                  None \<Rightarrow> s
                | Some results \<Rightarrow>
                    (let newTranscription = formatSpeakerResults results;
                         t = s\<lparr>currentTranscription :=
                                 currentTranscription s @ newTranscription\<rparr>
                     in if str_includes newTranscription ''[Interviewer]:''
                        then t\<lparr>recentVoiceQuestion := currentTranscription t,
                               voiceQuestionTimestamp := Some now,
                               awaitingManualResponse := False\<rparr>
                        else t))
      in case modelTurn content of
           None \<Rightarrow> s1
         | Some parts \<Rightarrow>
             if awaitingManualResponse s1 then fold append_part parts s1 else s1)"

definition onmessage_manual :: "nat \<Rightarrow> message \<Rightarrow> state \<Rightarrow> state" where
  "onmessage_manual now message s =
     (case message of
        None \<Rightarrow> s
      | Some content \<Rightarrow>
          (let s2 = accumulate_manual now content s;
               s3 = (if awaitingManualResponse s2 \<and> generationComplete content
                     then (generation_complete now s2)\<lparr>awaitingManualResponse := False\<rparr>
                     else s2)
           in if turnComplete content
              then sendToRenderer ''update-status'' (Text ''Listening...'') s3
              else s3))"

subsection \<open>Errors and closures reported by the transport (lines 292-339)\<close>

text \<open>
  \<^verbatim>\<open>e.message\<close> and \<^verbatim>\<open>e.reason\<close> may be absent (\<open>None\<close>); an absent or empty text is not an
  API key error.
\<close>

definition isApiKeyError :: "string option \<Rightarrow> bool" where
  "isApiKeyError text =
     (case text of
        None \<Rightarrow> False
      | Some t \<Rightarrow>
          t \<noteq> [] \<and>
          (str_includes t ''API key not valid'' \<or> str_includes t ''invalid API key''
           \<or> str_includes t ''authentication failed'' \<or> str_includes t ''unauthorized''))"

definition onerror :: "string option \<Rightarrow> state \<Rightarrow> state" where
  "onerror message s =
     (if isApiKeyError message
      then sendToRenderer ''update-status'' (Text ''Error: Invalid API key'')
             (s\<lparr>lastSessionParams := None, reconnectionAttempts := maxReconnectionAttempts\<rparr>)
      else sendToRenderer ''update-status''
             (Text (''Error: '' @ (case message of None \<Rightarrow> ''undefined'' | Some t \<Rightarrow> t))) s)"

text \<open>
  \<^verbatim>\<open>onclose\<close> calls \<^verbatim>\<open>attemptReconnection()\<close> without awaiting it. The model returns the new
  state and whether that call is made.
\<close>

definition onclose :: "string option \<Rightarrow> state \<Rightarrow> bool \<times> state" where
  "onclose reason s =
     (if isApiKeyError reason
      then (False,
            sendToRenderer ''update-status'' (Text ''Session closed: Invalid API key'')
              (s\<lparr>lastSessionParams := None, reconnectionAttempts := maxReconnectionAttempts\<rparr>))
      else if lastSessionParams s \<noteq> None \<and> reconnectionAttempts s < maxReconnectionAttempts
      then (True, s)
      else (False, sendToRenderer ''update-status'' (Text ''Session closed'') s))"

text \<open>
  The \<^verbatim>\<open>close-session\<close> handler (lines 901-919). \<^verbatim>\<open>stopMacOSAudioCapture\<close> and the session's
  \<^verbatim>\<open>close()\<close> return normally; the result object of the handler is not modelled.
\<close>

definition close_session :: "state \<Rightarrow> state" where
  "close_session s =
     (let s1 = (emit StopCapture s)\<lparr>lastSessionParams := None\<rparr>
      in case geminiSessionRef s1 of
           Some (Some current) \<Rightarrow> (emit (SessionClose current) s1)\<lparr>geminiSessionRef := Some None\<rparr>
         | _ \<Rightarrow> s1)"

subsection \<open>Session initialization (initializeGeminiSession, lines 212-367)\<close>

text \<open>
  What \<^verbatim>\<open>initializeGeminiSession\<close> hands to \<^verbatim>\<open>getSystemPrompt\<close> as its fourth argument: the
  first version of the file the array \<^verbatim>\<open>activeProjectsList\<close> (lines 241-244), the second the
  string returned by \<^verbatim>\<open>getProjectsContext()\<close> (lines 1505-1507). \<^verbatim>\<open>buildSystemPrompt\<close>
  (src/utils/prompts.js 800-818) evaluates \<^verbatim>\<open>projectsContext && projectsContext.trim()\<close>: a
  string has \<^verbatim>\<open>trim\<close>; an array, empty or not, is truthy and has no \<^verbatim>\<open>trim\<close>, so the call
  throws a \<^verbatim>\<open>TypeError\<close>. The text of the prompt is not modelled.
\<close>

datatype projects_argument = ProjectArray "string list" | ProjectString string

definition getSystemPrompt_throws :: "projects_argument \<Rightarrow> bool" where
  "getSystemPrompt_throws projectsContext =
     (case projectsContext of ProjectArray names \<Rightarrow> True | ProjectString t \<Rightarrow> False)"

text \<open>
  The function suspends twice: at \<^verbatim>\<open>await getEnabledTools()\<close> and at
  \<^verbatim>\<open>await client.live.connect(...)\<close>. Its three segments are three definitions. The first
  is \<open>None\<close> when the call returns \<^verbatim>\<open>false\<close> at the guard. The second is \<open>None\<close> when
  \<^verbatim>\<open>getSystemPrompt\<close> throws: that is before the \<^verbatim>\<open>try\<close> of line 251, so the exception
  leaves the function and nothing after it runs. The third holds both the return after
  the \<^verbatim>\<open>await\<close> and the \<^verbatim>\<open>catch\<close>. Creating the client and \<^verbatim>\<open>getEnabledTools\<close>, which
  catches its own errors, return normally.
\<close>

datatype connect_outcome = Connected session | ConnectFailed

datatype init_result = ReturnedFalse | ReturnedSession session | ReturnedNull | Threw

definition initialize_begin :: "sessionParams \<Rightarrow> bool \<Rightarrow> state \<Rightarrow> state option" where
  "initialize_begin params isReconnection s =
     (if isInitializingSession s then None
      else
        (let s1 = sendToRenderer ''session-initializing'' (Flag True)
                    (s\<lparr>isInitializingSession := True\<rparr>);
             s2 = (if \<not> isReconnection
                   then s1\<lparr>lastSessionParams := Some params, reconnectionAttempts := 0\<rparr>
                   else s1)
         in Some (emit (NewClient (apiKey params)) s2)))"

definition initialize_connect ::
  "nat \<Rightarrow> projects_argument \<Rightarrow> sessionParams \<Rightarrow> bool \<Rightarrow> state \<Rightarrow> state option" where
  "initialize_connect now projectsContext params isReconnection s =
     (if getSystemPrompt_throws projectsContext then None
      else Some (emit (LiveConnect params)
                   (if \<not> isReconnection then initializeNewSession now s else s)))"

definition initialize_settle :: "connect_outcome \<Rightarrow> state \<Rightarrow> init_result \<times> state" where
  "initialize_settle outcome s =
     (let s1 = sendToRenderer ''session-initializing'' (Flag False)
                 (s\<lparr>isInitializingSession := False\<rparr>)
      in case outcome of
           Connected session \<Rightarrow> (ReturnedSession session, s1)
         | ConnectFailed \<Rightarrow> (ReturnedNull, s1))"

text \<open>A call that runs from its guard to its return with nothing in between.\<close>

definition initializeGeminiSession ::
  "nat \<Rightarrow> projects_argument \<Rightarrow> connect_outcome \<Rightarrow> sessionParams \<Rightarrow> bool \<Rightarrow> state
     \<Rightarrow> init_result \<times> state" where
  "initializeGeminiSession now projectsContext outcome params isReconnection s =
     (case initialize_begin params isReconnection s of
        None \<Rightarrow> (ReturnedFalse, s)
      | Some s1 \<Rightarrow>
          (case initialize_connect now projectsContext params isReconnection s1 of
             None \<Rightarrow> (Threw, s1)
           | Some s2 \<Rightarrow> initialize_settle outcome s2))"

text \<open>
  Calls interleaved on the event loop: the calls suspended at one of the two awaits, and
  the events that start a call or resume the \<open>k\<close>-th suspended one. A call that throws at
  its second segment is no longer suspended.
\<close>

datatype suspended = AwaitingTools sessionParams bool | AwaitingConnect

datatype loop_event =
    Start sessionParams bool
  | Resume nat nat projects_argument connect_outcome

fun loop_step :: "state \<times> suspended list \<Rightarrow> loop_event \<Rightarrow> state \<times> suspended list" where
  "loop_step (s, calls) (Start params isReconnection) =
     (case initialize_begin params isReconnection s of
        None \<Rightarrow> (s, calls)
      | Some s1 \<Rightarrow> (s1, calls @ [AwaitingTools params isReconnection]))"
| "loop_step (s, calls) (Resume k now projectsContext outcome) =
     (if k < length calls then
        (case calls ! k of
           AwaitingTools params isReconnection \<Rightarrow>
             (case initialize_connect now projectsContext params isReconnection s of
                None \<Rightarrow> (s, take k calls @ drop (Suc k) calls)
              | Some s1 \<Rightarrow> (s1, calls[k := AwaitingConnect]))
         | AwaitingConnect \<Rightarrow>
             (snd (initialize_settle outcome s), take k calls @ drop (Suc k) calls))
      else (s, calls))"

definition event_loop ::
  "state \<times> suspended list \<Rightarrow> loop_event list \<Rightarrow> state \<times> suspended list" where
  "event_loop y events = foldl loop_step y events"

subsection \<open>Reconnection (lines 85-114 and 166-210)\<close>

definition context_header :: string where
  "context_header =
     ''Till now all these questions were asked in the interview, answer the last one please:''
     @ [CHR 0x0A, CHR 0x0A]"

definition sendReconnectionContext :: "state \<Rightarrow> state" where
  "sendReconnectionContext s =
     (case geminiSessionRef s of
        Some (Some current) \<Rightarrow>
          (if conversationHistory s = [] then s
           else
             (let transcriptions =
                    filter (\<lambda>t. t \<noteq> [] \<and> length (trim t) > 0)
                      (map transcription (conversationHistory s))
              in if transcriptions = [] then s
                 else emit (SendRealtimeInput current
                              (context_header @ join [CHR 0x0A] transcriptions)) s))
      | _ \<Rightarrow> s)"

text \<open>
  What may run while an attempt sleeps in its \<^verbatim>\<open>setTimeout\<close>: handlers that run to their
  end without starting the controller again.
\<close>

datatype interleaved = CloseSession | TransportError "string option"

fun interleave :: "interleaved \<Rightarrow> state \<Rightarrow> state" where
  "interleave CloseSession s = close_session s"
| "interleave (TransportError message) s = onerror message s"

text \<open>
  What the outside contributes to one attempt: the handlers that run during its delay,
  the time, the argument the initialization hands to \<^verbatim>\<open>getSystemPrompt\<close>, and the outcome
  of the connection.
\<close>

record attempt_env =
  during_delay :: "interleaved list"
  clock :: nat
  projects :: projects_argument
  connect :: connect_outcome

text \<open>
  One pass through lines 173-200: count, sleep, initialize, and on success install the
  session, reset the counter and replay the context. Reading \<^verbatim>\<open>lastSessionParams.apiKey\<close>
  when the parameters are \<^verbatim>\<open>null\<close> throws inside the \<^verbatim>\<open>try\<close>, and so does an
  initialization that throws; the \<^verbatim>\<open>catch\<close> makes either a failed attempt.
\<close>

datatype attempt_result = Reconnected state | AttemptFailed state

definition reconnection_attempt :: "attempt_env \<Rightarrow> state \<Rightarrow> attempt_result" where
  "reconnection_attempt e s =
     (let s1 = s\<lparr>reconnectionAttempts := reconnectionAttempts s + 1\<rparr>;
          s2 = emit (SetTimeout reconnectionDelay) s1;
          s3 = fold interleave (during_delay e) s2
      in case lastSessionParams s3 of
           None \<Rightarrow> AttemptFailed s3
         | Some params \<Rightarrow>
             (case initializeGeminiSession (clock e) (projects e) (connect e) params True s3 of
                (ReturnedSession session, s4) \<Rightarrow>
                  (case geminiSessionRef s4 of
                     None \<Rightarrow> AttemptFailed s4
                   | Some current \<Rightarrow>
                       Reconnected
                         (sendReconnectionContext
                            (s4\<lparr>geminiSessionRef := Some (Some session),
                                reconnectionAttempts := 0\<rparr>)))
              | (other, s4) \<Rightarrow> AttemptFailed s4))"

lemma interleave_attempts:
  "reconnectionAttempts s \<le> maxReconnectionAttempts \<Longrightarrow>
     reconnectionAttempts s \<le> reconnectionAttempts (interleave ev s) \<and>
     reconnectionAttempts (interleave ev s) \<le> maxReconnectionAttempts"
  by (cases ev)
     (auto simp: close_session_def onerror_def emit_def sendToRenderer_def Let_def
        split: option.splits)

lemma fold_interleave_attempts:
  "reconnectionAttempts s \<le> maxReconnectionAttempts \<Longrightarrow>
     reconnectionAttempts s \<le> reconnectionAttempts (fold interleave evs s) \<and>
     reconnectionAttempts (fold interleave evs s) \<le> maxReconnectionAttempts"
proof (induction evs arbitrary: s)
  case Nil
  then show ?case by simp
next
  case (Cons ev evs)
  from interleave_attempts [OF Cons.prems, of ev]
  have a: "reconnectionAttempts s \<le> reconnectionAttempts (interleave ev s)"
    and b: "reconnectionAttempts (interleave ev s) \<le> maxReconnectionAttempts"
    by simp_all
  from Cons.IH [OF b] a show ?case
    by simp
qed

lemma initializeGeminiSession_reconnect_attempts:
  "initializeGeminiSession now pc outcome params True s = (r, s') \<Longrightarrow>
     reconnectionAttempts s' = reconnectionAttempts s"
  by (auto simp: initializeGeminiSession_def initialize_begin_def initialize_connect_def
        initialize_settle_def emit_def sendToRenderer_def Let_def
        split: option.splits if_splits connect_outcome.splits)

lemma reconnection_attempt_failed_counts:
  assumes "reconnection_attempt e s = AttemptFailed s'"
    and "reconnectionAttempts s < maxReconnectionAttempts"
  shows "reconnectionAttempts s < reconnectionAttempts s'"
proof -
  let ?s2 = "emit (SetTimeout reconnectionDelay) (s\<lparr>reconnectionAttempts := reconnectionAttempts s + 1\<rparr>)"
  let ?s3 = "fold interleave (during_delay e) ?s2"
  have "reconnectionAttempts ?s2 \<le> maxReconnectionAttempts"
    using assms(2) by (simp add: emit_def)
  from fold_interleave_attempts [OF this, of "during_delay e"]
  have s3: "reconnectionAttempts s < reconnectionAttempts ?s3"
    by (simp add: emit_def)
  show ?thesis
  proof (cases "lastSessionParams ?s3")
    case None
    with assms(1) have "s' = ?s3"
      by (simp add: reconnection_attempt_def Let_def)
    with s3 show ?thesis by simp
  next
    case (Some params)
    obtain r s4 where i: "initializeGeminiSession (clock e) (projects e) (connect e) params True ?s3 = (r, s4)"
      by (cases "initializeGeminiSession (clock e) (projects e) (connect e) params True ?s3")
    from assms(1) Some i have "s' = s4"
      by (auto simp: reconnection_attempt_def Let_def
            split: init_result.splits option.splits)
    with initializeGeminiSession_reconnect_attempts [OF i] s3 show ?thesis
      by simp
  qed
qed

text \<open>
  \<^verbatim>\<open>attemptReconnection\<close>. \<open>env n\<close> is what the outside does during the attempt that
  raises the counter to \<open>n\<close>. The result is the returned boolean and the final state.
\<close>

function attemptReconnection :: "(nat \<Rightarrow> attempt_env) \<Rightarrow> state \<Rightarrow> bool \<times> state" where
  "attemptReconnection env s =
     (if lastSessionParams s = None \<or> reconnectionAttempts s \<ge> maxReconnectionAttempts
      then (False, sendToRenderer ''update-status'' (Text ''Session closed'') s)
      else
        (case reconnection_attempt (env (reconnectionAttempts s + 1)) s of
           Reconnected s' \<Rightarrow> (True, s')
         | AttemptFailed s' \<Rightarrow>
             (if reconnectionAttempts s' < maxReconnectionAttempts
              then attemptReconnection env s'
              else (False, sendToRenderer ''update-status'' (Text ''Session closed'') s'))))"
  by pat_completeness auto
termination
proof (relation "measure (\<lambda>(env, s). maxReconnectionAttempts - reconnectionAttempts s)")
  show "wf (measure (\<lambda>(env, s). maxReconnectionAttempts - reconnectionAttempts s))"
    by simp
next
  fix env s s'
  assume g: "\<not> (lastSessionParams s = None \<or> maxReconnectionAttempts \<le> reconnectionAttempts s)"
    and a: "reconnection_attempt (env (reconnectionAttempts s + 1)) s = AttemptFailed s'"
    and l: "reconnectionAttempts s' < maxReconnectionAttempts"
  from g have "reconnectionAttempts s < maxReconnectionAttempts" by simp
  from reconnection_attempt_failed_counts [OF a this] l
  show "((env, s'), (env, s)) \<in> measure (\<lambda>(env, s). maxReconnectionAttempts - reconnectionAttempts s)"
    by simp
qed

declare attemptReconnection.simps [simp del]

text \<open>An unexpected closure: \<^verbatim>\<open>onclose\<close>, then the controller when \<^verbatim>\<open>onclose\<close> starts it.\<close>

definition closure :: "(nat \<Rightarrow> attempt_env) \<Rightarrow> string option \<Rightarrow> state \<Rightarrow> state" where
  "closure env reason s =
     (case onclose reason s of
        (True, s1) \<Rightarrow> snd (attemptReconnection env s1)
      | (False, s1) \<Rightarrow> s1)"

section \<open>Vocabulary of the properties\<close>

text \<open>
  Names for what the properties below talk about: the effects that create a client or
  open a connection, the generic closed status, the interleaved events that clear the
  stored parameters, the effects of one initialization that runs to its end, the timer
  effects, the effects of one attempt (the reconnection timer first, then no other timer),
  a state with no current session, the transcripts a replay sends (those that are not
  blank), and the event loop holding at most one suspended initialization, with the flag
  set while it holds one.
\<close>

fun handshake :: "effect \<Rightarrow> bool" where
  "handshake (NewClient k) = True"
| "handshake (LiveConnect p) = True"
| "handshake e = False"

definition closed_status :: effect where
  "closed_status = SendToRenderer ''update-status'' (Text ''Session closed'')"

fun clears_params :: "interleaved \<Rightarrow> bool" where
  "clears_params CloseSession = True"
| "clears_params (TransportError message) = isApiKeyError message"

definition initialization_effects :: "sessionParams \<Rightarrow> effect list" where
  "initialization_effects p =
     [SendToRenderer ''session-initializing'' (Flag True), NewClient (apiKey p), LiveConnect p,
      SendToRenderer ''session-initializing'' (Flag False)]"

fun timer :: "effect \<Rightarrow> bool" where
  "timer (SetTimeout d) = True"
| "timer e = False"

definition attempt_block :: "effect list \<Rightarrow> bool" where
  "attempt_block b =
     (case b of
        [] \<Rightarrow> False
      | x # rest \<Rightarrow> x = SetTimeout reconnectionDelay \<and> list_all (\<lambda>y. \<not> timer y) rest)"

definition no_current_session :: "state \<Rightarrow> bool" where
  "no_current_session s = (geminiSessionRef s = None \<or> geminiSessionRef s = Some None)"

definition replayed :: "conversationTurn list \<Rightarrow> string list" where
  "replayed history = filter (\<lambda>t. trim t \<noteq> []) (map transcription history)"

definition one_in_flight :: "state \<times> suspended list \<Rightarrow> bool" where
  "one_in_flight y = (length (snd y) \<le> 1 \<and> (snd y = [] \<or> isInitializingSession (fst y)))"

section \<open>Example inputs\<close>

text \<open>
  Concrete states, messages and environments at which the properties are evaluated.
\<close>

definition lone_response :: state where
  "lone_response = initial_state\<lparr>currentSessionId := Some 1, messageBuffer := ''answer''\<rparr>"

definition stored_params :: sessionParams where
  "stored_params =
     \<lparr>apiKey = ''key'', customPrompt = [], profile = ''interview'', language = ''en-US''\<rparr>"

definition always_failing :: "nat \<Rightarrow> attempt_env" where
  "always_failing n =
     \<lparr>during_delay = [], clock = 7, projects = ProjectString [], connect = ConnectFailed\<rparr>"

definition live_state :: state where
  "live_state =
     initial_state\<lparr>currentSessionId := Some 1, lastSessionParams := Some stored_params,
                   geminiSessionRef := Some (Some 4)\<rparr>"

definition rejected_key :: "string option" where
  "rejected_key = Some ''API key not valid. Please pass a valid API key.''"

definition key_rejected_while_waiting :: "nat \<Rightarrow> attempt_env" where
  "key_rejected_while_waiting n =
     \<lparr>during_delay = [TransportError rejected_key], clock = 7, projects = ProjectString [],
      connect = Connected 9\<rparr>"

definition closed_while_waiting :: "nat \<Rightarrow> attempt_env" where
  "closed_while_waiting n =
     \<lparr>during_delay = [CloseSession], clock = 7, projects = ProjectString [],
      connect = Connected 9\<rparr>"

definition second_attempt_connects :: "nat \<Rightarrow> attempt_env" where
  "second_attempt_connects n =
     \<lparr>during_delay = [], clock = 7, projects = ProjectString [],
      connect = (if n = 2 then Connected 9 else ConnectFailed)\<rparr>"

definition three_turns :: "conversationTurn list" where
  "three_turns =
     [\<lparr>timestamp = 1, transcription = ''q1'', ai_response = ''a1''\<rparr>,
      \<lparr>timestamp = 2, transcription = '' '', ai_response = ''a2''\<rparr>,
      \<lparr>timestamp = 3, transcription = ''q3'', ai_response = ''a3''\<rparr>]"

definition answered_session :: state where
  "answered_session = live_state\<lparr>conversationHistory := three_turns, reconnectionAttempts := 1\<rparr>"

definition broken_prompt :: "nat \<Rightarrow> attempt_env" where
  "broken_prompt n =
     \<lparr>during_delay = [], clock = 7, projects = ProjectArray [], connect = Connected 9\<rparr>"

definition question_and_answer :: serverContent where
  "question_and_answer =
     \<lparr>inputTranscription = Some [\<lparr>transcript = Some ''hello'', speakerId = Some 1\<rparr>],
      modelTurn = Some [Some ''an'', None, Some ''swer  ''],
      generationComplete = True, turnComplete = True\<rparr>"

definition question_only :: serverContent where
  "question_only =
     \<lparr>inputTranscription = Some [\<lparr>transcript = Some ''hello'', speakerId = Some 2\<rparr>],
      modelTurn = None, generationComplete = True, turnComplete = False\<rparr>"

section \<open>Properties of the capture buffer\<close>

lemma CHUNK_SIZE_value: "CHUNK_SIZE = 9600"
  by (simp add: CHUNK_SIZE_def SAMPLE_RATE_def BYTES_PER_SAMPLE_def CHANNELS_def)

lemma maxBufferSize_value: "maxBufferSize = 48000"
  by (simp add: maxBufferSize_def SAMPLE_RATE_def BYTES_PER_SAMPLE_def)

lemma buffer_slice_front: "buffer_slice b 0 (Some (int n)) = take n b"
  by (simp add: buffer_slice_def slice_index_def min_def)

lemma buffer_slice_from: "buffer_slice b (int n) None = drop n b"
  by (simp add: buffer_slice_def slice_index_def min_def)

lemma buffer_slice_last:
  "0 < n \<Longrightarrow> buffer_slice b (- int n) None = drop (length b - n) b"
  by (simp add: buffer_slice_def slice_index_def max_def nat_diff_distrib')

lemma extract_chunks_spec:
  "extract_chunks b = (cs, r) \<Longrightarrow>
     concat cs @ r = b \<and> (\<forall>c \<in> set cs. length c = CHUNK_SIZE) \<and> length r < CHUNK_SIZE"
proof (induction b arbitrary: cs r rule: extract_chunks.induct)
  case (1 b)
  show ?case
  proof (cases "CHUNK_SIZE \<le> length b")
    case False
    with "1.prems" show ?thesis
      by (simp add: extract_chunks.simps [of b])
  next
    case True
    obtain cs' r' where rec: "extract_chunks (buffer_slice b (int CHUNK_SIZE) None) = (cs', r')"
      by (cases "extract_chunks (buffer_slice b (int CHUNK_SIZE) None)")
    from "1.prems" True rec have cs: "cs = buffer_slice b 0 (Some (int CHUNK_SIZE)) # cs'"
      and r: "r = r'"
      by (simp_all add: extract_chunks.simps [of b])
    from "1.IH" [OF True rec]
    have ih: "concat cs' @ r' = drop CHUNK_SIZE b"
      "\<forall>c \<in> set cs'. length c = CHUNK_SIZE" "length r' < CHUNK_SIZE"
      by (simp_all add: buffer_slice_from)
    from ih True show ?thesis
      by (simp add: cs r buffer_slice_front)
  qed
qed

lemma extract_chunks_front:
  "CHUNK_SIZE \<le> length b \<Longrightarrow>
     extract_chunks b =
       (take CHUNK_SIZE b # fst (extract_chunks (drop CHUNK_SIZE b)),
        snd (extract_chunks (drop CHUNK_SIZE b)))"
  by (simp add: extract_chunks.simps [of b] buffer_slice_front buffer_slice_from
        split: prod.splits)

lemma extract_chunks_short:
  "length b < CHUNK_SIZE \<Longrightarrow> extract_chunks b = ([], b)"
  by (simp add: extract_chunks.simps [of b])

lemma CHUNK_SIZE_le_cap: "CHUNK_SIZE \<le> maxBufferSize"
  by (simp add: CHUNK_SIZE_value maxBufferSize_value)

lemma truncate_buffer_short: "length r < CHUNK_SIZE \<Longrightarrow> truncate_buffer r = r"
  using CHUNK_SIZE_le_cap by (simp add: truncate_buffer_def)

lemma truncate_buffer_over:
  "maxBufferSize < length r \<Longrightarrow> truncate_buffer r = drop (length r - maxBufferSize) r"
  using buffer_slice_last [of maxBufferSize r]
  by (simp add: truncate_buffer_def maxBufferSize_value)

text \<open>
  One \<^verbatim>\<open>'data'\<close> event loses nothing: the chunks followed by the new buffer are the old
  buffer followed by the delivery, and the loop leaves less than one chunk, which is below
  the retention cap, so the truncation that follows the loop changes nothing.
\<close>

lemma on_data_spec:
  assumes "on_data b d = (cs, r)"
  shows "concat cs @ r = b @ d" "\<forall>c \<in> set cs. length c = CHUNK_SIZE" "length r < CHUNK_SIZE"
proof -
  obtain cs' r' where e: "extract_chunks (b @ d) = (cs', r')"
    by (cases "extract_chunks (b @ d)")
  from extract_chunks_spec [OF e]
  have s: "concat cs' @ r' = b @ d" "\<forall>c \<in> set cs'. length c = CHUNK_SIZE" "length r' < CHUNK_SIZE"
    by simp_all
  from assms e have "cs = cs'" "r = truncate_buffer r'"
    by (simp_all add: on_data_def)
  with s truncate_buffer_short [OF s(3)]
  show "concat cs @ r = b @ d" "\<forall>c \<in> set cs. length c = CHUNK_SIZE" "length r < CHUNK_SIZE"
    by simp_all
qed

lemma deliveries_spec:
  "deliveries b ds = (cs, r) \<Longrightarrow> length b < CHUNK_SIZE \<Longrightarrow>
     concat cs @ r = b @ concat ds \<and> (\<forall>c \<in> set cs. length c = CHUNK_SIZE) \<and> length r < CHUNK_SIZE"
proof (induction ds arbitrary: b cs r)
  case Nil
  then show ?case by simp
next
  case (Cons d ds)
  obtain cs1 b1 where o: "on_data b d = (cs1, b1)"
    by (cases "on_data b d")
  obtain cs2 b2 where r: "deliveries b1 ds = (cs2, b2)"
    by (cases "deliveries b1 ds")
  from Cons.prems(1) o r have eq: "cs = cs1 @ cs2" "r = b2"
    by simp_all
  note s1 = on_data_spec [OF o]
  from Cons.IH [OF r s1(3)]
  have s2: "concat cs2 @ b2 = b1 @ concat ds" "\<forall>c \<in> set cs2. length c = CHUNK_SIZE"
    "length b2 < CHUNK_SIZE"
    by simp_all
  have "concat cs @ r = concat cs1 @ (concat cs2 @ b2)"
    by (simp add: eq)
  also have "\<dots> = (concat cs1 @ b1) @ concat ds"
    by (simp add: s2(1))
  also have "\<dots> = b @ concat (d # ds)"
    by (simp add: s1(1))
  finally have "concat cs @ r = b @ concat (d # ds)" .
  with s1(2) s2(2,3) show ?case
    by (auto simp: eq)
qed

lemma length_concat_chunks:
  "\<forall>c \<in> set cs. length c = n \<Longrightarrow> length (concat cs) = length cs * n"
  by (induction cs) simp_all

text \<open>
  C1. The chunk size is 9600 bytes. For every sequence of deliveries whose total length is
  a multiple of the chunk size, the chunks emitted, concatenated in the order of emission,
  are the delivered bytes in the order of delivery; every chunk has exactly the chunk size
  and nothing stays in the buffer. A chunk is always the front of the buffer: the loop on
  a buffer holding at least one chunk emits its first 9600 bytes and goes on with the
  rest. The backlog left by an event is below one chunk, hence below the retention cap
  (lemma \<open>on_data_spec\<close>), so the claim's condition on the backlog holds for every sequence
  and is no hypothesis here.
\<close>

theorem chunks_reassemble_deliveries:
  assumes "sum_list (map length ds) mod CHUNK_SIZE = 0"
  shows "CHUNK_SIZE = 9600 \<and>
         concat (fst (capture ds)) = concat ds \<and>
         (\<forall>c \<in> set (fst (capture ds)). length c = CHUNK_SIZE) \<and>
         snd (capture ds) = [] \<and>
         (CHUNK_SIZE \<le> length b \<longrightarrow>
            fst (extract_chunks b) = take CHUNK_SIZE b # fst (extract_chunks (drop CHUNK_SIZE b)))"
proof -
  obtain cs r where c: "deliveries [] ds = (cs, r)"
    by (cases "deliveries [] ds")
  have "length ([]::buffer) < CHUNK_SIZE"
    by (simp add: CHUNK_SIZE_value)
  from deliveries_spec [OF c this]
  have s: "concat cs @ r = concat ds" "\<forall>c \<in> set cs. length c = CHUNK_SIZE"
    "length r < CHUNK_SIZE"
    by simp_all
  have lc: "length (concat cs) = length cs * CHUNK_SIZE"
    by (rule length_concat_chunks [OF s(2)])
  have ld: "length (concat ds) = sum_list (map length ds)"
    by (simp add: length_concat)
  have "length (concat cs) + length r = length (concat ds)"
    using s(1) by (metis length_append)
  then have "length cs * CHUNK_SIZE + length r = sum_list (map length ds)"
    by (simp only: lc ld)
  then have "length r mod CHUNK_SIZE = 0"
    using assms by (metis mod_mult_self3)
  with s(3) have "r = []"
    by simp
  with s c have "concat (fst (capture ds)) = concat ds"
    "\<forall>c \<in> set (fst (capture ds)). length c = CHUNK_SIZE" "snd (capture ds) = []"
    by (simp_all add: capture_def)
  then show ?thesis
    by (simp add: CHUNK_SIZE_value [symmetric] extract_chunks_front)
qed

theorem chunks_reassemble_deliveries_witness:
  "sum_list (map length [replicate 4000 (1::byte), replicate 15200 2]) mod CHUNK_SIZE = 0 \<and>
   concat (fst (capture [replicate 4000 1, replicate 15200 2]))
     = replicate 4000 1 @ replicate 15200 2 \<and>
   fst (capture [replicate 4000 1, replicate 15200 2])
     = [replicate 4000 1 @ replicate 5600 2, replicate 9600 2] \<and>
   snd (capture [replicate 4000 1, replicate 15200 2]) = [] \<and>
   CHUNK_SIZE \<le> length (replicate 9000 (1::byte) @ replicate 1000 2) \<and>
   fst (extract_chunks (replicate 9000 1 @ replicate 1000 2))
     = take CHUNK_SIZE (replicate 9000 1 @ replicate 1000 2)
       # fst (extract_chunks (drop CHUNK_SIZE (replicate 9000 1 @ replicate 1000 2)))"
proof -
  have h: "sum_list (map length [replicate 4000 (1::byte), replicate 15200 2]) mod CHUNK_SIZE = 0"
    by (simp add: CHUNK_SIZE_value)
  have l: "CHUNK_SIZE \<le> length (replicate 9000 (1::byte) @ replicate 1000 2)"
    by (simp add: CHUNK_SIZE_value)
  have e: "fst (capture [replicate 4000 1, replicate 15200 2])
     = [replicate 4000 1 @ replicate 5600 2, replicate 9600 2]"
    by (simp add: capture_def on_data_def extract_chunks_front extract_chunks_short
          truncate_buffer_short CHUNK_SIZE_value)
  note t = chunks_reassemble_deliveries [OF h, of "replicate 9000 1 @ replicate 1000 2"]
  from t have "concat (fst (capture [replicate 4000 1, replicate 15200 2]))
     = concat [replicate 4000 1, replicate 15200 2]"
    by blast
  then have c: "concat (fst (capture [replicate 4000 1, replicate 15200 2]))
     = replicate 4000 1 @ replicate 15200 2"
    by simp
  from t have n: "snd (capture [replicate 4000 1, replicate 15200 2]) = []"
    by blast
  from t l have f: "fst (extract_chunks (replicate 9000 1 @ replicate 1000 2))
     = take CHUNK_SIZE (replicate 9000 1 @ replicate 1000 2)
       # fst (extract_chunks (drop CHUNK_SIZE (replicate 9000 1 @ replicate 1000 2)))"
    by blast
  from h c e n l f show ?thesis
    by blast
qed

text \<open>
  C2. The cap \<^verbatim>\<open>maxBufferSize\<close> is \<^verbatim>\<open>SAMPLE_RATE * BYTES_PER_SAMPLE * 1\<close>, 48000 bytes: one
  second of 16-bit audio on one channel. After every \<^verbatim>\<open>'data'\<close> event the buffer is no
  longer than the cap and is the end (the newest bytes) of the old buffer followed by
  the delivery. The truncation step
  never leaves more than the cap, keeps an end of what it is given, and when it cuts
  it keeps exactly the last \<^verbatim>\<open>maxBufferSize\<close> bytes, dropping the oldest.
\<close>

theorem buffer_capped_keeps_newest:
  "maxBufferSize = 48000 \<and>
   length (snd (on_data b d)) \<le> maxBufferSize \<and>
   suffix (snd (on_data b d)) (b @ d) \<and>
   length (truncate_buffer r) \<le> maxBufferSize \<and>
   suffix (truncate_buffer r) r \<and>
   (maxBufferSize < length r \<longrightarrow>
      truncate_buffer r = drop (length r - maxBufferSize) r \<and>
      length (truncate_buffer r) = maxBufferSize)"
proof -
  obtain cs r' where o: "on_data b d = (cs, r')"
    by (cases "on_data b d")
  note s = on_data_spec [OF o]
  have 1: "length (snd (on_data b d)) \<le> maxBufferSize"
    using s(3) CHUNK_SIZE_le_cap by (simp add: o)
  have 2: "suffix (snd (on_data b d)) (b @ d)"
    using s(1) by (simp add: o suffix_def) metis
  have 3: "length (truncate_buffer r) \<le> maxBufferSize"
    by (cases "maxBufferSize < length r")
       (simp_all add: truncate_buffer_over, simp add: truncate_buffer_def)
  have 4: "suffix (truncate_buffer r) r"
    by (cases "maxBufferSize < length r")
       (simp_all add: truncate_buffer_over suffix_drop, simp add: truncate_buffer_def)
  have 5: "maxBufferSize < length r \<longrightarrow>
      truncate_buffer r = drop (length r - maxBufferSize) r \<and>
      length (truncate_buffer r) = maxBufferSize"
    by (simp add: truncate_buffer_over)
  from maxBufferSize_value 1 2 3 4 5 show ?thesis
    by - (intro conjI; assumption)
qed

theorem buffer_capped_keeps_newest_witness:
  "maxBufferSize < length (1 # replicate 48000 (2::byte)) \<and>
   truncate_buffer (1 # replicate 48000 2) = replicate 48000 2 \<and>
   length (truncate_buffer (1 # replicate 48000 2)) = maxBufferSize \<and>
   length (snd (on_data (replicate 9000 1) (replicate 1000 2))) \<le> maxBufferSize \<and>
   snd (on_data (replicate 9000 1) (replicate 1000 2)) = replicate 400 2"
proof -
  have h: "maxBufferSize < length (1 # replicate 48000 (2::byte))"
    by (simp add: maxBufferSize_value)
  have e: "snd (on_data (replicate 9000 1) (replicate 1000 2)) = replicate 400 2"
    by (simp add: on_data_def extract_chunks_front extract_chunks_short
          truncate_buffer_short CHUNK_SIZE_value)
  note t =
    buffer_capped_keeps_newest [of "replicate 9000 1" "replicate 1000 2" "1 # replicate 48000 2"]
  from t have i: "maxBufferSize < length (1 # replicate 48000 (2::byte)) \<longrightarrow>
      truncate_buffer (1 # replicate 48000 2)
        = drop (length (1 # replicate 48000 (2::byte)) - maxBufferSize) (1 # replicate 48000 2) \<and>
      length (truncate_buffer (1 # replicate 48000 2)) = maxBufferSize"
    by - (elim conjE, assumption)
  note k = mp [OF i h]
  have d: "drop (length (1 # replicate 48000 (2::byte)) - maxBufferSize) (1 # replicate 48000 2)
      = replicate 48000 (2::byte)"
    by (simp add: maxBufferSize_value)
  from k d have 1: "truncate_buffer (1 # replicate 48000 2) = replicate 48000 (2::byte)"
    by (simp only:)
  from k have 2: "length (truncate_buffer (1 # replicate 48000 (2::byte))) = maxBufferSize"
    by (rule conjunct2)
  from t have 3: "length (snd (on_data (replicate 9000 1) (replicate 1000 2))) \<le> maxBufferSize"
    by - (elim conjE, assumption)
  from h 1 2 3 e show ?thesis
    by - (intro conjI; assumption)
qed

section \<open>Properties of the sample conversion\<close>

lemma sint_int16:
  "- 32768 \<le> n \<Longrightarrow> n \<le> 32767 \<Longrightarrow> sint (word_of_int n :: 16 word) = n"
  by (simp add: sint_sbintrunc' signed_take_bit_int_eq_self)

lemma convert_sample_Finite:
  "convert_sample (Finite x) = word_of_int (clamped_scaled x)"
  by (auto simp: convert_sample_def clamped_scaled_def Let_def max_def min_def)

lemma clamped_scaled_range: "- 32768 \<le> clamped_scaled x \<and> clamped_scaled x \<le> 32767"
  by (auto simp: clamped_scaled_def Let_def trunc_toward_zero_def max_def min_def
        le_floor_iff floor_le_iff ceiling_le_iff le_ceiling_iff)

lemma clamped_scaled_above: "1 < x \<Longrightarrow> clamped_scaled x = clamped_scaled 1"
  by (simp add: clamped_scaled_def Let_def)

lemma clamped_scaled_below: "x < - 1 \<Longrightarrow> clamped_scaled x = clamped_scaled (- 1)"
  by (simp add: clamped_scaled_def Let_def)

text \<open>
  C9. The converted array has the length of the input and each element is the conversion
  of the element at the same index. The sample 1.0 gives \<open>0x7FFF\<close> (32767), -1.0 gives
  \<open>-0x8000\<close> (-32768) and 0.0 gives 0. A sample above 1 gives what 1.0 gives and a sample
  below -1 what -1.0 gives, and so do the two infinities; NaN gives 0. The 16-bit element,
  read as a signed number, is the clamped and scaled integer itself, which lies between
  -32768 and 32767: the store never wraps.
\<close>

theorem convertFloat32ToInt16_clamps_and_scales:
  "length (convertFloat32ToInt16 xs) = length xs \<and>
   (\<forall>i. i < length xs \<longrightarrow> convertFloat32ToInt16 xs ! i = convert_sample (xs ! i)) \<and>
   convert_sample (Finite 1) = 0x7FFF \<and>
   sint (convert_sample (Finite 1)) = 32767 \<and>
   sint (convert_sample (Finite (- 1))) = - 32768 \<and>
   convert_sample (Finite 0) = 0 \<and>
   (1 < x \<longrightarrow> convert_sample (Finite x) = convert_sample (Finite 1)) \<and>
   (x < - 1 \<longrightarrow> convert_sample (Finite x) = convert_sample (Finite (- 1))) \<and>
   convert_sample PosInf = convert_sample (Finite 1) \<and>
   convert_sample NegInf = convert_sample (Finite (- 1)) \<and>
   convert_sample NaN = 0 \<and>
   sint (convert_sample (Finite x)) = clamped_scaled x \<and>
   - 32768 \<le> clamped_scaled x \<and> clamped_scaled x \<le> 32767"
proof -
  have len: "length (convertFloat32ToInt16 xs) = length xs"
    by (simp add: convertFloat32ToInt16_def)
  have nth: "\<forall>i. i < length xs \<longrightarrow> convertFloat32ToInt16 xs ! i = convert_sample (xs ! i)"
    by (simp add: convertFloat32ToInt16_def)
  have one: "convert_sample (Finite 1) = 0x7FFF"
    by (simp add: convert_sample_def trunc_toward_zero_def)
  have one': "sint (convert_sample (Finite 1)) = 32767"
    by (simp add: one)
  have mone: "sint (convert_sample (Finite (- 1))) = - 32768"
    by (simp add: convert_sample_def trunc_toward_zero_def)
  have zero: "convert_sample (Finite 0) = 0"
    by (simp add: convert_sample_def trunc_toward_zero_def)
  have above: "1 < x \<longrightarrow> convert_sample (Finite x) = convert_sample (Finite 1)"
    by (simp add: convert_sample_Finite clamped_scaled_above)
  have below: "x < - 1 \<longrightarrow> convert_sample (Finite x) = convert_sample (Finite (- 1))"
    by (simp add: convert_sample_Finite clamped_scaled_below)
  have inf: "convert_sample PosInf = convert_sample (Finite 1)"
    "convert_sample NegInf = convert_sample (Finite (- 1))" "convert_sample NaN = 0"
    by (simp_all add: convert_sample_def)
  note r = clamped_scaled_range [of x]
  have exact: "sint (convert_sample (Finite x)) = clamped_scaled x"
    using r by (simp add: convert_sample_Finite sint_int16)
  from len nth one one' mone zero above below inf exact
    r [THEN conjunct1] r [THEN conjunct2]
  show ?thesis
    by - (intro conjI; assumption)
qed

theorem convertFloat32ToInt16_clamps_and_scales_witness:
  "(1::real) < 3 / 2 \<and>
   convert_sample (Finite (3 / 2)) = convert_sample (Finite 1) \<and>
   (- 2::real) < - 1 \<and>
   convert_sample (Finite (- 2)) = convert_sample (Finite (- 1)) \<and>
   (1::nat) < length [Finite (1 / 2), Finite (3 / 2)] \<and>
   convertFloat32ToInt16 [Finite (1 / 2), Finite (3 / 2)] ! 1 = convert_sample (Finite (3 / 2)) \<and>
   sint (convert_sample (Finite (1 / 2))) = 16383 \<and>
   sint (convert_sample (Finite (- 1 / 2))) = - 16384"
proof -
  note a = convertFloat32ToInt16_clamps_and_scales [of "[Finite (1 / 2), Finite (3 / 2)]" "3 / 2"]
  note b = convertFloat32ToInt16_clamps_and_scales [of "[]" "- 2"]
  have 1: "(1::real) < 3 / 2" by simp
  from a have "(1::real) < 3 / 2 \<longrightarrow> convert_sample (Finite (3 / 2)) = convert_sample (Finite 1)"
    by - (elim conjE, assumption)
  with 1 have 2: "convert_sample (Finite (3 / 2)) = convert_sample (Finite 1)"
    by (rule rev_mp)
  have 3: "(- 2::real) < - 1" by simp
  from b have "(- 2::real) < - 1 \<longrightarrow> convert_sample (Finite (- 2)) = convert_sample (Finite (- 1))"
    by - (elim conjE, assumption)
  with 3 have 4: "convert_sample (Finite (- 2)) = convert_sample (Finite (- 1))"
    by (rule rev_mp)
  have 5: "(1::nat) < length [Finite (1 / 2), Finite (3 / 2)]" by simp
  from a have "\<forall>i. i < length [Finite (1 / 2), Finite (3 / 2)] \<longrightarrow>
      convertFloat32ToInt16 [Finite (1 / 2), Finite (3 / 2)] ! i
        = convert_sample ([Finite (1 / 2), Finite (3 / 2)] ! i)"
    by - (elim conjE, assumption)
  from this [rule_format, OF 5]
  have 6: "convertFloat32ToInt16 [Finite (1 / 2), Finite (3 / 2)] ! 1
      = convert_sample (Finite (3 / 2))"
    by simp
  have 7: "sint (convert_sample (Finite (1 / 2))) = 16383"
    by (simp add: convert_sample_def trunc_toward_zero_def)
  have 8: "sint (convert_sample (Finite (- 1 / 2))) = - 16384"
    by (simp add: convert_sample_def trunc_toward_zero_def)
  from 1 2 3 4 5 6 7 8 show ?thesis
    by - (intro conjI; assumption)
qed

section \<open>Properties of the message handler\<close>

lemma append_part_history:
  "conversationHistory (append_part part s) = conversationHistory s \<and>
   currentSessionId (append_part part s) = currentSessionId s \<and>
   currentTranscription (append_part part s) = currentTranscription s \<and>
   awaitingManualResponse (append_part part s) = awaitingManualResponse s"
  by (simp add: append_part_def sendToRenderer_def emit_def Let_def split: option.splits)

lemma fold_append_part_history:
  "conversationHistory (fold append_part parts s) = conversationHistory s \<and>
   currentSessionId (fold append_part parts s) = currentSessionId s \<and>
   currentTranscription (fold append_part parts s) = currentTranscription s \<and>
   awaitingManualResponse (fold append_part parts s) = awaitingManualResponse s"
  by (induction parts arbitrary: s) (simp_all add: append_part_history)

lemma accumulate_history:
  "conversationHistory (accumulate content s) = conversationHistory s \<and>
   currentSessionId (accumulate content s) = currentSessionId s"
  by (simp add: accumulate_def Let_def fold_append_part_history split: option.splits)

lemma accumulate_manual_history:
  "conversationHistory (accumulate_manual now content s) = conversationHistory s \<and>
   currentSessionId (accumulate_manual now content s) = currentSessionId s"
  by (simp add: accumulate_manual_def Let_def fold_append_part_history split: option.splits)

lemma generation_complete_fields:
  "conversationHistory (generation_complete now m) =
     (if currentTranscription m \<noteq> [] \<and> messageBuffer m \<noteq> []
      then (if currentSessionId m = None then [] else conversationHistory m)
           @ [\<lparr>timestamp = now, transcription = trim (currentTranscription m),
                ai_response = trim (messageBuffer m)\<rparr>]
      else conversationHistory m)"
  "currentTranscription (generation_complete now m) =
     (if currentTranscription m \<noteq> [] \<and> messageBuffer m \<noteq> [] then []
      else currentTranscription m)"
  "messageBuffer (generation_complete now m) = []"
  by (simp_all add: generation_complete_def saveConversationTurn_def initializeNewSession_def
        sendToRenderer_def emit_def Let_def)

lemma sendToRenderer_fields:
  "conversationHistory (sendToRenderer c d s) = conversationHistory s"
  "currentTranscription (sendToRenderer c d s) = currentTranscription s"
  "messageBuffer (sendToRenderer c d s) = messageBuffer s"
  by (simp_all add: sendToRenderer_def emit_def)

text \<open>
  C3, as amended. The handler acts on the \<^verbatim>\<open>generationComplete\<close> flag of a message (in the
  second version only while \<^verbatim>\<open>awaitingManualResponse\<close> is set); the \<^verbatim>\<open>turnComplete\<close> flag
  only reports a status. With the message's own fragments appended first, a turn is
  appended to the history exactly when both buffers are non-empty, and then both are
  cleared. When only the transcript is non-empty the history is unchanged and the
  transcript is kept. The response buffer is cleared at every processed completion, so a
  response without a transcript is dropped, not kept.
\<close>

theorem turn_saved_on_generation_complete:
  "conversationHistory (onmessage now (Some content) s) =
     (if generationComplete content \<and> currentTranscription (accumulate content s) \<noteq> []
         \<and> messageBuffer (accumulate content s) \<noteq> []
      then (if currentSessionId s = None then [] else conversationHistory s)
           @ [\<lparr>timestamp = now,
                transcription = trim (currentTranscription (accumulate content s)),
                ai_response = trim (messageBuffer (accumulate content s))\<rparr>]
      else conversationHistory s) \<and>
   currentTranscription (onmessage now (Some content) s) =
     (if generationComplete content \<and> currentTranscription (accumulate content s) \<noteq> []
         \<and> messageBuffer (accumulate content s) \<noteq> []
      then [] else currentTranscription (accumulate content s)) \<and>
   messageBuffer (onmessage now (Some content) s) =
     (if generationComplete content then [] else messageBuffer (accumulate content s)) \<and>
   conversationHistory (onmessage_manual now (Some content) s) =
     (if awaitingManualResponse (accumulate_manual now content s) \<and> generationComplete content
         \<and> currentTranscription (accumulate_manual now content s) \<noteq> []
         \<and> messageBuffer (accumulate_manual now content s) \<noteq> []
      then (if currentSessionId s = None then [] else conversationHistory s)
           @ [\<lparr>timestamp = now,
                transcription = trim (currentTranscription (accumulate_manual now content s)),
                ai_response = trim (messageBuffer (accumulate_manual now content s))\<rparr>]
      else conversationHistory s) \<and>
   currentTranscription (onmessage_manual now (Some content) s) =
     (if awaitingManualResponse (accumulate_manual now content s) \<and> generationComplete content
         \<and> currentTranscription (accumulate_manual now content s) \<noteq> []
         \<and> messageBuffer (accumulate_manual now content s) \<noteq> []
      then [] else currentTranscription (accumulate_manual now content s)) \<and>
   messageBuffer (onmessage_manual now (Some content) s) =
     (if awaitingManualResponse (accumulate_manual now content s) \<and> generationComplete content
      then [] else messageBuffer (accumulate_manual now content s))"
proof -
  let ?m = "accumulate content s"
  let ?n = "accumulate_manual now content s"
  note h = accumulate_history [of content s] accumulate_manual_history [of now content s]
  have 1: "conversationHistory (onmessage now (Some content) s) =
     (if generationComplete content \<and> currentTranscription ?m \<noteq> [] \<and> messageBuffer ?m \<noteq> []
      then (if currentSessionId s = None then [] else conversationHistory s)
           @ [\<lparr>timestamp = now, transcription = trim (currentTranscription ?m),
                ai_response = trim (messageBuffer ?m)\<rparr>]
      else conversationHistory s)"
    using h by (simp add: onmessage_def Let_def sendToRenderer_fields generation_complete_fields)
  have 2: "currentTranscription (onmessage now (Some content) s) =
     (if generationComplete content \<and> currentTranscription ?m \<noteq> [] \<and> messageBuffer ?m \<noteq> []
      then [] else currentTranscription ?m)"
    by (simp add: onmessage_def Let_def sendToRenderer_fields generation_complete_fields)
  have 3: "messageBuffer (onmessage now (Some content) s) =
     (if generationComplete content then [] else messageBuffer ?m)"
    by (simp add: onmessage_def Let_def sendToRenderer_fields generation_complete_fields)
  have 4: "conversationHistory (onmessage_manual now (Some content) s) =
     (if awaitingManualResponse ?n \<and> generationComplete content
         \<and> currentTranscription ?n \<noteq> [] \<and> messageBuffer ?n \<noteq> []
      then (if currentSessionId s = None then [] else conversationHistory s)
           @ [\<lparr>timestamp = now, transcription = trim (currentTranscription ?n),
                ai_response = trim (messageBuffer ?n)\<rparr>]
      else conversationHistory s)"
    using h
    by (simp add: onmessage_manual_def Let_def sendToRenderer_fields generation_complete_fields)
  have 5: "currentTranscription (onmessage_manual now (Some content) s) =
     (if awaitingManualResponse ?n \<and> generationComplete content
         \<and> currentTranscription ?n \<noteq> [] \<and> messageBuffer ?n \<noteq> []
      then [] else currentTranscription ?n)"
    by (simp add: onmessage_manual_def Let_def sendToRenderer_fields generation_complete_fields)
  have 6: "messageBuffer (onmessage_manual now (Some content) s) =
     (if awaitingManualResponse ?n \<and> generationComplete content
      then [] else messageBuffer ?n)"
    by (simp add: onmessage_manual_def Let_def sendToRenderer_fields generation_complete_fields)
  from 1 2 3 4 5 6 show ?thesis
    by - (intro conjI; assumption)
qed

theorem turn_saved_on_generation_complete_witness:
  "conversationHistory
     (onmessage 2 (Some question_and_answer) (initial_state\<lparr>currentSessionId := Some 1\<rparr>))
     = [\<lparr>timestamp = 2, transcription = ''[Interviewer]: hello'', ai_response = ''answer''\<rparr>] \<and>
   currentTranscription
     (onmessage 2 (Some question_and_answer) (initial_state\<lparr>currentSessionId := Some 1\<rparr>))
     = [] \<and>
   messageBuffer
     (onmessage 2 (Some question_and_answer) (initial_state\<lparr>currentSessionId := Some 1\<rparr>))
     = [] \<and>
   conversationHistory
     (onmessage 2 (Some question_only) (initial_state\<lparr>currentSessionId := Some 1\<rparr>))
     = [] \<and>
   currentTranscription
     (onmessage 2 (Some question_only) (initial_state\<lparr>currentSessionId := Some 1\<rparr>))
     = ''[Candidate]: hello'' @ [CHR 0x0A]"
proof -
  let ?s = "initial_state\<lparr>currentSessionId := Some 1\<rparr>"
  have a: "currentTranscription (accumulate question_and_answer ?s)
      = ''[Interviewer]: hello'' @ [CHR 0x0A]"
    "messageBuffer (accumulate question_and_answer ?s) = ''answer  ''"
    by (simp_all add: accumulate_def question_and_answer_def initial_state_def append_part_def
          sendToRenderer_def emit_def Let_def)
  have b: "currentTranscription (accumulate question_only ?s) = ''[Candidate]: hello'' @ [CHR 0x0A]"
    "messageBuffer (accumulate question_only ?s) = []"
    by (simp_all add: accumulate_def question_only_def initial_state_def Let_def)
  have f: "generationComplete question_and_answer" "generationComplete question_only"
    "currentSessionId ?s = Some 1" "conversationHistory ?s = []"
    by (simp_all add: question_and_answer_def question_only_def initial_state_def)
  have tr: "trim (''[Interviewer]: hello'' @ [CHR 0x0A]) = ''[Interviewer]: hello''"
    "trim ''answer  '' = ''answer''"
    by (simp_all add: trim_def is_white_space_def)
  note t = turn_saved_on_generation_complete [of 2 question_and_answer ?s]
  note u = turn_saved_on_generation_complete [of 2 question_only ?s]
  from t [THEN conjunct1]
  have 1: "conversationHistory (onmessage 2 (Some question_and_answer) ?s)
     = [\<lparr>timestamp = 2, transcription = ''[Interviewer]: hello'', ai_response = ''answer''\<rparr>]"
    by (simp only: a f tr) simp
  from t [THEN conjunct2, THEN conjunct1]
  have 2: "currentTranscription (onmessage 2 (Some question_and_answer) ?s) = []"
    by (simp only: a f) simp
  from t [THEN conjunct2, THEN conjunct2, THEN conjunct1]
  have 3: "messageBuffer (onmessage 2 (Some question_and_answer) ?s) = []"
    by (simp only: a f) simp
  from u [THEN conjunct1]
  have 4: "conversationHistory (onmessage 2 (Some question_only) ?s) = []"
    by (simp only: b f) simp
  from u [THEN conjunct2, THEN conjunct1]
  have 5: "currentTranscription (onmessage 2 (Some question_only) ?s)
      = ''[Candidate]: hello'' @ [CHR 0x0A]"
    by (simp only: b f) simp
  from 1 2 3 4 5 show ?thesis
    by - (intro conjI; assumption)
qed

text \<open>
  The claim as stated fails: a completion that finds an answer and no transcript leaves
  the history unchanged but empties the response buffer.
\<close>

theorem lone_response_discarded:
  "currentTranscription lone_response = [] \<and>
   messageBuffer lone_response = ''answer'' \<and>
   conversationHistory
     (onmessage 2 (Some \<lparr>inputTranscription = None, modelTurn = None,
                           generationComplete = True, turnComplete = True\<rparr>) lone_response)
     = conversationHistory lone_response \<and>
   messageBuffer
     (onmessage 2 (Some \<lparr>inputTranscription = None, modelTurn = None,
                           generationComplete = True, turnComplete = True\<rparr>) lone_response)
     = [] \<and>
   messageBuffer
     (onmessage 2 (Some \<lparr>inputTranscription = None, modelTurn = None,
                           generationComplete = True, turnComplete = True\<rparr>) lone_response)
     \<noteq> messageBuffer lone_response"
  by (simp add: lone_response_def initial_state_def onmessage_def accumulate_def
        generation_complete_def sendToRenderer_def emit_def Let_def)

section \<open>Properties of the reconnection controller\<close>

lemma attemptReconnection_refused:
  "lastSessionParams s = None \<or> maxReconnectionAttempts \<le> reconnectionAttempts s \<Longrightarrow>
     attemptReconnection env s = (False, emit closed_status s)"
  by (simp add: attemptReconnection.simps [of env s] sendToRenderer_def closed_status_def)

lemma interleave_params_cleared:
  "lastSessionParams s = None \<Longrightarrow> lastSessionParams (interleave ev s) = None"
  by (cases ev)
     (auto simp: close_session_def onerror_def emit_def sendToRenderer_def Let_def
        split: option.splits)

lemma fold_interleave_params_cleared:
  "lastSessionParams s = None \<Longrightarrow> lastSessionParams (fold interleave evs s) = None"
  by (induction evs arbitrary: s) (simp_all add: interleave_params_cleared)

lemma interleave_no_handshake:
  "filter handshake (effects (interleave ev s)) = filter handshake (effects s)"
  by (cases ev)
     (auto simp: close_session_def onerror_def emit_def sendToRenderer_def Let_def
        split: option.splits)

lemma fold_interleave_no_handshake:
  "filter handshake (effects (fold interleave evs s)) = filter handshake (effects s)"
  by (induction evs arbitrary: s) (simp_all add: interleave_no_handshake)

lemma interleave_no_session:
  "geminiSessionRef (interleave ev s) = geminiSessionRef s \<or>
   geminiSessionRef (interleave ev s) = Some None"
  by (cases ev)
     (auto simp: close_session_def onerror_def emit_def sendToRenderer_def Let_def
        split: option.splits)
lemma interleave_clears:
  "clears_params ev \<Longrightarrow> lastSessionParams (interleave ev s) = None"
  by (cases ev)
     (auto simp: close_session_def onerror_def emit_def sendToRenderer_def Let_def
        split: option.splits)

lemma fold_interleave_clears:
  "ev \<in> set evs \<Longrightarrow> clears_params ev \<Longrightarrow> lastSessionParams (fold interleave evs s) = None"
proof (induction evs arbitrary: s)
  case Nil
  then show ?case by simp
next
  case (Cons a evs)
  show ?case
  proof (cases "clears_params a")
    case True
    then show ?thesis
      by (simp add: interleave_clears fold_interleave_params_cleared)
  next
    case False
    with Cons.prems have "ev \<in> set evs" by auto
    from Cons.IH [OF this Cons.prems(2)] show ?thesis by simp
  qed
qed

lemma cleared_during_delay:
  assumes g: "lastSessionParams s = Some p" "reconnectionAttempts s < maxReconnectionAttempts"
    and ev: "ev \<in> set (during_delay (env (reconnectionAttempts s + 1)))" "clears_params ev"
  shows "attemptReconnection env s =
     (False, emit closed_status
        (fold interleave (during_delay (env (reconnectionAttempts s + 1)))
           (emit (SetTimeout reconnectionDelay)
              (s\<lparr>reconnectionAttempts := reconnectionAttempts s + 1\<rparr>))))"
proof -
  let ?e = "env (reconnectionAttempts s + 1)"
  let ?s3 = "fold interleave (during_delay ?e)
           (emit (SetTimeout reconnectionDelay)
              (s\<lparr>reconnectionAttempts := reconnectionAttempts s + 1\<rparr>))"
  have n: "lastSessionParams ?s3 = None"
    by (rule fold_interleave_clears [OF ev])
  then have a: "reconnection_attempt ?e s = AttemptFailed ?s3"
    by (simp add: reconnection_attempt_def Let_def)
  from n have r: "attemptReconnection env ?s3 = (False, emit closed_status ?s3)"
    by (simp add: attemptReconnection_refused)
  from g a r show ?thesis
    by (simp add: attemptReconnection.simps [of env s] sendToRenderer_def closed_status_def)
qed


lemma calm_interleave:
  assumes "\<not> clears_params ev"
  shows "\<exists>x. interleave ev s = s\<lparr>effects := effects s @ [x]\<rparr> \<and> \<not> timer x"
proof (cases ev)
  case CloseSession
  with assms show ?thesis by simp
next
  case (TransportError m)
  let ?x = "SendToRenderer ''update-status''
      (Text (''Error: '' @ (case m of None \<Rightarrow> ''undefined'' | Some t \<Rightarrow> t)))"
  from assms TransportError have "\<not> isApiKeyError m"
    by simp
  then have "interleave ev s = s\<lparr>effects := effects s @ [?x]\<rparr> \<and> \<not> timer ?x"
    by (simp add: TransportError onerror_def sendToRenderer_def emit_def)
  then show ?thesis by blast
qed

lemma calm_fold_interleave:
  "\<forall>ev \<in> set evs. \<not> clears_params ev \<Longrightarrow>
     \<exists>xs. fold interleave evs s = s\<lparr>effects := effects s @ xs\<rparr> \<and> list_all (\<lambda>y. \<not> timer y) xs"
proof (induction evs arbitrary: s)
  case Nil
  have "fold interleave [] s = s\<lparr>effects := effects s @ []\<rparr> \<and> list_all (\<lambda>y. \<not> timer y) []"
    by simp
  then show ?case by blast
next
  case (Cons ev evs)
  from Cons.prems have "\<not> clears_params ev" and rest: "\<forall>ev \<in> set evs. \<not> clears_params ev"
    by simp_all
  from calm_interleave [OF this(1), of s]
  obtain x where x: "interleave ev s = s\<lparr>effects := effects s @ [x]\<rparr>" "\<not> timer x"
    by blast
  from Cons.IH [OF rest, of "interleave ev s"]
  obtain xs where xs: "fold interleave evs (interleave ev s)
      = (interleave ev s)\<lparr>effects := effects (interleave ev s) @ xs\<rparr>"
    "list_all (\<lambda>y. \<not> timer y) xs"
    by blast
  have "fold interleave (ev # evs) s = s\<lparr>effects := effects s @ (x # xs)\<rparr>"
    by (simp add: xs(1)) (simp add: x(1))
  moreover have "list_all (\<lambda>y. \<not> timer y) (x # xs)"
    using x(2) xs(2) by simp
  ultimately show ?case by blast
qed

lemma reinitialize_shape:
  "initializeGeminiSession now pc outcome params True s = (r, s') \<Longrightarrow>
     reconnectionAttempts s' = reconnectionAttempts s \<and>
     lastSessionParams s' = lastSessionParams s \<and>
     (\<exists>ys. effects s' = effects s @ ys \<and> list_all (\<lambda>y. \<not> timer y) ys)"
  by (auto simp: initializeGeminiSession_def initialize_begin_def initialize_connect_def
        initialize_settle_def emit_def sendToRenderer_def Let_def
        split: option.splits if_splits connect_outcome.splits)

lemma failed_attempt_shape:
  assumes a: "reconnection_attempt e s = AttemptFailed s1"
    and calm: "\<forall>ev \<in> set (during_delay e). \<not> clears_params ev"
    and p: "lastSessionParams s = Some p"
  shows "reconnectionAttempts s1 = Suc (reconnectionAttempts s) \<and>
     lastSessionParams s1 = Some p \<and>
     (\<exists>b. effects s1 = effects s @ b \<and> attempt_block b)"
proof -
  let ?s2 = "emit (SetTimeout reconnectionDelay)
               (s\<lparr>reconnectionAttempts := Suc (reconnectionAttempts s)\<rparr>)"
  from calm_fold_interleave [OF calm, of ?s2]
  obtain xs where xs: "fold interleave (during_delay e) ?s2 = ?s2\<lparr>effects := effects ?s2 @ xs\<rparr>"
    "list_all (\<lambda>y. \<not> timer y) xs"
    by blast
  let ?s3 = "?s2\<lparr>effects := effects ?s2 @ xs\<rparr>"
  have p3: "lastSessionParams ?s3 = Some p"
    using p by (simp add: emit_def)
  obtain r s4 where i: "initializeGeminiSession (clock e) (projects e) (connect e) p True ?s3 = (r, s4)"
    by (cases "initializeGeminiSession (clock e) (projects e) (connect e) p True ?s3")
  from a have "s1 = s4"
    by (auto simp: reconnection_attempt_def Let_def xs(1) p3 i
          split: init_result.splits option.splits)
  moreover from reinitialize_shape [OF i]
  obtain ys where s4: "reconnectionAttempts s4 = reconnectionAttempts ?s3"
    "lastSessionParams s4 = lastSessionParams ?s3"
    "effects s4 = effects ?s3 @ ys" "list_all (\<lambda>y. \<not> timer y) ys"
    by blast
  ultimately have "reconnectionAttempts s1 = Suc (reconnectionAttempts s)"
    "lastSessionParams s1 = Some p"
    "effects s1 = effects s @ (SetTimeout reconnectionDelay # xs @ ys)"
    using p by (simp_all add: emit_def)
  moreover have "attempt_block (SetTimeout reconnectionDelay # xs @ ys)"
    using xs(2) s4(4) by (simp add: attempt_block_def)
  ultimately show ?thesis by blast
qed

lemma failing_run:
  assumes calm: "\<forall>n. \<forall>ev \<in> set (during_delay (env n)). \<not> clears_params ev"
  shows "lastSessionParams s = Some p \<Longrightarrow>
     maxReconnectionAttempts - reconnectionAttempts s = Suc d \<Longrightarrow>
     attemptReconnection env s = (False, s') \<Longrightarrow>
     reconnectionAttempts s' = maxReconnectionAttempts \<and>
     lastSessionParams s' = Some p \<and>
     (\<exists>blocks. effects s' = effects s @ concat blocks @ [closed_status] \<and>
        length blocks = Suc d \<and> list_all attempt_block blocks)"
proof (induction d arbitrary: s)
  case 0
  from "0.prems"(2) have g: "reconnectionAttempts s < maxReconnectionAttempts"
    and k: "Suc (reconnectionAttempts s) = maxReconnectionAttempts"
    by simp_all
  let ?e = "env (reconnectionAttempts s + 1)"
  show ?case
  proof (cases "reconnection_attempt ?e s")
    case (Reconnected s1)
    with "0.prems"(1,3) g show ?thesis
      by (simp add: attemptReconnection.simps [of env s])
  next
    case (AttemptFailed s1)
    from calm have "\<forall>ev \<in> set (during_delay ?e). \<not> clears_params ev"
      by blast
    from failed_attempt_shape [OF AttemptFailed this "0.prems"(1)]
    obtain b where s1: "reconnectionAttempts s1 = Suc (reconnectionAttempts s)"
      "lastSessionParams s1 = Some p" "effects s1 = effects s @ b" "attempt_block b"
      by blast
    from "0.prems"(1,3) g k AttemptFailed s1(1) have "s' = emit closed_status s1"
      by (simp add: attemptReconnection.simps [of env s] sendToRenderer_def closed_status_def)
    with s1 k have "reconnectionAttempts s' = maxReconnectionAttempts"
      "lastSessionParams s' = Some p"
      "effects s' = effects s @ concat [b] @ [closed_status]"
      "length [b] = Suc 0" "list_all attempt_block [b]"
      by (simp_all add: emit_def)
    then show ?thesis by blast
  qed
next
  case (Suc d)
  from Suc.prems(2) have g: "reconnectionAttempts s < maxReconnectionAttempts"
    and k: "Suc (reconnectionAttempts s) < maxReconnectionAttempts"
    by simp_all
  let ?e = "env (reconnectionAttempts s + 1)"
  show ?case
  proof (cases "reconnection_attempt ?e s")
    case (Reconnected s1)
    with Suc.prems(1,3) g show ?thesis
      by (simp add: attemptReconnection.simps [of env s])
  next
    case (AttemptFailed s1)
    from calm have "\<forall>ev \<in> set (during_delay ?e). \<not> clears_params ev"
      by blast
    from failed_attempt_shape [OF AttemptFailed this Suc.prems(1)]
    obtain b where s1: "reconnectionAttempts s1 = Suc (reconnectionAttempts s)"
      "lastSessionParams s1 = Some p" "effects s1 = effects s @ b" "attempt_block b"
      by blast
    from Suc.prems(1,3) g k AttemptFailed s1(1) have run: "attemptReconnection env s1 = (False, s')"
      by (simp add: attemptReconnection.simps [of env s])
    have d: "maxReconnectionAttempts - reconnectionAttempts s1 = Suc d"
      using Suc.prems(2) s1(1) by simp
    from Suc.IH [OF s1(2) d run]
    obtain blocks where ih: "reconnectionAttempts s' = maxReconnectionAttempts"
      "lastSessionParams s' = Some p"
      "effects s' = effects s1 @ concat blocks @ [closed_status]"
      "length blocks = Suc d" "list_all attempt_block blocks"
      by blast
    from ih s1 have "effects s' = effects s @ concat (b # blocks) @ [closed_status]"
      "length (b # blocks) = Suc (Suc d)" "list_all attempt_block (b # blocks)"
      by simp_all
    with ih(1,2) show ?thesis by blast
  qed
qed

lemmas run_defs =
  attemptReconnection.simps reconnection_attempt_def
  initializeGeminiSession_def initialize_begin_def initialize_connect_def initialize_settle_def
  getSystemPrompt_throws_def maxReconnectionAttempts_def reconnectionDelay_def
  sendToRenderer_def emit_def Let_def

lemma onclose_unexpected:
  "\<not> isApiKeyError reason \<Longrightarrow> lastSessionParams s = Some p \<Longrightarrow>
     reconnectionAttempts s < maxReconnectionAttempts \<Longrightarrow> onclose reason s = (True, s)"
  by (simp add: onclose_def)

lemma onclose_exhausted:
  "maxReconnectionAttempts \<le> reconnectionAttempts s \<Longrightarrow> fst (onclose reason s) = False"
  by (simp add: onclose_def)

text \<open>
  C4. The controller allows 3 attempts, 2000 ms apart. Take a closure that is not an API
  key error, with parameters stored and budget left, during which nothing clears the
  parameters, and let the run fail (no attempt reconnects, for whatever reason: the
  connection fails, the initialization throws or is refused, no session reference is
  installed). Then \<^verbatim>\<open>onclose\<close> starts the controller, and what the run adds to the effects
  is one block per attempt left in the budget, each block starting with the 2000 ms timer
  and holding no other timer, followed by the status \<^verbatim>\<open>Session closed\<close>; the counter ends at
  the maximum. From a counter of 0 that is exactly three attempts. Afterwards neither
  the controller nor a later closure starts an attempt. And whenever no parameters are
  stored or the counter has reached the maximum, the controller only reports
  \<^verbatim>\<open>Session closed\<close>.
\<close>

theorem reconnection_gives_up_after_three:
  assumes calm: "\<forall>n. \<forall>ev \<in> set (during_delay (env n)). \<not> clears_params ev"
    and reason: "\<not> isApiKeyError reason"
    and params: "lastSessionParams s = Some p"
    and budget: "reconnectionAttempts s < maxReconnectionAttempts"
    and fails: "fst (attemptReconnection env s) = False"
  shows "maxReconnectionAttempts = 3 \<and> reconnectionDelay = 2000 \<and>
    closure env reason s = snd (attemptReconnection env s) \<and>
    (\<exists>blocks. effects (closure env reason s) = effects s @ concat blocks @ [closed_status] \<and>
       length blocks = maxReconnectionAttempts - reconnectionAttempts s \<and>
       list_all attempt_block blocks) \<and>
    reconnectionAttempts (closure env reason s) = maxReconnectionAttempts \<and>
    attemptReconnection env' (closure env reason s)
      = (False, emit closed_status (closure env reason s)) \<and>
    fst (onclose reason' (closure env reason s)) = False \<and>
    (lastSessionParams t = None \<or> maxReconnectionAttempts \<le> reconnectionAttempts t \<longrightarrow>
       attemptReconnection env' t = (False, emit closed_status t))"
proof -
  let ?d = "maxReconnectionAttempts - reconnectionAttempts s"
  from budget obtain d where d: "?d = Suc d"
    by (cases ?d) simp_all
  obtain s' where run: "attemptReconnection env s = (False, s')"
    using fails by (cases "attemptReconnection env s") simp
  from failing_run [OF calm params d run]
  obtain blocks where r: "reconnectionAttempts s' = maxReconnectionAttempts"
    "effects s' = effects s @ concat blocks @ [closed_status]"
    "length blocks = Suc d" "list_all attempt_block blocks"
    by blast
  have c: "closure env reason s = s'"
    by (simp add: closure_def onclose_unexpected [OF reason params budget] run)
  have 1: "closure env reason s = snd (attemptReconnection env s)"
    by (simp add: c run)
  have 2: "\<exists>blocks. effects (closure env reason s) = effects s @ concat blocks @ [closed_status] \<and>
       length blocks = maxReconnectionAttempts - reconnectionAttempts s \<and>
       list_all attempt_block blocks"
    using r(2,3,4) by (simp only: c d) blast
  have 3: "reconnectionAttempts (closure env reason s) = maxReconnectionAttempts"
    by (simp add: c r(1))
  have 4: "attemptReconnection env' (closure env reason s)
      = (False, emit closed_status (closure env reason s))"
    by (rule attemptReconnection_refused) (simp add: 3)
  have 5: "fst (onclose reason' (closure env reason s)) = False"
    by (rule onclose_exhausted) (simp add: 3)
  have 6: "lastSessionParams t = None \<or> maxReconnectionAttempts \<le> reconnectionAttempts t \<longrightarrow>
       attemptReconnection env' t = (False, emit closed_status t)"
    by (simp add: attemptReconnection_refused)
  have m: "maxReconnectionAttempts = 3" "reconnectionDelay = 2000"
    by (simp_all add: maxReconnectionAttempts_def reconnectionDelay_def)
  from m 1 2 3 4 5 6 show ?thesis
    by - (intro conjI; assumption)
qed

theorem reconnection_gives_up_after_three_witness:
  "(\<forall>n. list_all (\<lambda>ev. \<not> clears_params ev) (during_delay (always_failing n))) \<and>
   \<not> isApiKeyError (Some ''going away'') \<and>
   lastSessionParams live_state = Some stored_params \<and>
   reconnectionAttempts live_state < maxReconnectionAttempts \<and>
   fst (attemptReconnection always_failing live_state) = False \<and>
   closure always_failing (Some ''going away'') live_state =
     live_state\<lparr>reconnectionAttempts := 3,
       effects :=
       [SetTimeout 2000, SendToRenderer ''session-initializing'' (Flag True), NewClient ''key'',
        LiveConnect stored_params, SendToRenderer ''session-initializing'' (Flag False),
        SetTimeout 2000, SendToRenderer ''session-initializing'' (Flag True), NewClient ''key'',
        LiveConnect stored_params, SendToRenderer ''session-initializing'' (Flag False),
        SetTimeout 2000, SendToRenderer ''session-initializing'' (Flag True), NewClient ''key'',
        LiveConnect stored_params, SendToRenderer ''session-initializing'' (Flag False),
        SendToRenderer ''update-status'' (Text ''Session closed'')]\<rparr> \<and>
   closure broken_prompt (Some ''going away'') live_state =
     live_state\<lparr>reconnectionAttempts := 3, isInitializingSession := True,
       effects :=
       [SetTimeout 2000, SendToRenderer ''session-initializing'' (Flag True), NewClient ''key'',
        SetTimeout 2000, SetTimeout 2000,
        SendToRenderer ''update-status'' (Text ''Session closed'')]\<rparr> \<and>
   lastSessionParams (initial_state\<lparr>reconnectionAttempts := 1\<rparr>) = None \<and>
   attemptReconnection always_failing (initial_state\<lparr>reconnectionAttempts := 1\<rparr>)
     = (False, emit closed_status (initial_state\<lparr>reconnectionAttempts := 1\<rparr>))"
proof -
  have ev1: "attemptReconnection always_failing live_state =
    (False,
     live_state\<lparr>reconnectionAttempts := 3,
       effects :=
       [SetTimeout 2000, SendToRenderer ''session-initializing'' (Flag True), NewClient ''key'',
        LiveConnect stored_params, SendToRenderer ''session-initializing'' (Flag False),
        SetTimeout 2000, SendToRenderer ''session-initializing'' (Flag True), NewClient ''key'',
        LiveConnect stored_params, SendToRenderer ''session-initializing'' (Flag False),
        SetTimeout 2000, SendToRenderer ''session-initializing'' (Flag True), NewClient ''key'',
        LiveConnect stored_params, SendToRenderer ''session-initializing'' (Flag False),
        SendToRenderer ''update-status'' (Text ''Session closed'')]\<rparr>)"
    by (simp add: run_defs always_failing_def live_state_def initial_state_def stored_params_def)
  have ev2: "attemptReconnection broken_prompt live_state =
    (False,
     live_state\<lparr>reconnectionAttempts := 3, isInitializingSession := True,
       effects :=
       [SetTimeout 2000, SendToRenderer ''session-initializing'' (Flag True), NewClient ''key'',
        SetTimeout 2000, SetTimeout 2000,
        SendToRenderer ''update-status'' (Text ''Session closed'')]\<rparr>)"
    by (simp add: run_defs broken_prompt_def live_state_def initial_state_def stored_params_def)
  have c1: "\<forall>n. \<forall>ev \<in> set (during_delay (always_failing n)). \<not> clears_params ev"
    by (simp add: always_failing_def)
  have c2: "\<forall>n. \<forall>ev \<in> set (during_delay (broken_prompt n)). \<not> clears_params ev"
    by (simp add: broken_prompt_def)
  have 1: "\<forall>n. list_all (\<lambda>ev. \<not> clears_params ev) (during_delay (always_failing n))"
    by (simp add: always_failing_def)
  have 2: "\<not> isApiKeyError (Some ''going away'')"
    by (simp add: isApiKeyError_def)
  have 3: "lastSessionParams live_state = Some stored_params"
    by (simp add: live_state_def)
  have 4: "reconnectionAttempts live_state < maxReconnectionAttempts"
    by (simp add: live_state_def initial_state_def maxReconnectionAttempts_def)
  have 5: "fst (attemptReconnection always_failing live_state) = False"
    by (simp add: ev1)
  have f2: "fst (attemptReconnection broken_prompt live_state) = False"
    by (simp add: ev2)
  have 8: "lastSessionParams (initial_state\<lparr>reconnectionAttempts := 1\<rparr>) = None"
    by (simp add: initial_state_def)
  note t = reconnection_gives_up_after_three [OF c1 2 3 4 5,
      where env' = always_failing and reason' = None
        and t = "initial_state\<lparr>reconnectionAttempts := 1\<rparr>"]
  note u = reconnection_gives_up_after_three [OF c2 2 3 4 f2,
      where env' = always_failing and reason' = None
        and t = "initial_state\<lparr>reconnectionAttempts := 1\<rparr>"]
  from t have "closure always_failing (Some ''going away'') live_state
      = snd (attemptReconnection always_failing live_state)"
    by - (elim conjE, assumption)
  then have 6: "closure always_failing (Some ''going away'') live_state =
     live_state\<lparr>reconnectionAttempts := 3,
       effects :=
       [SetTimeout 2000, SendToRenderer ''session-initializing'' (Flag True), NewClient ''key'',
        LiveConnect stored_params, SendToRenderer ''session-initializing'' (Flag False),
        SetTimeout 2000, SendToRenderer ''session-initializing'' (Flag True), NewClient ''key'',
        LiveConnect stored_params, SendToRenderer ''session-initializing'' (Flag False),
        SetTimeout 2000, SendToRenderer ''session-initializing'' (Flag True), NewClient ''key'',
        LiveConnect stored_params, SendToRenderer ''session-initializing'' (Flag False),
        SendToRenderer ''update-status'' (Text ''Session closed'')]\<rparr>"
    by (simp only: ev1 snd_conv)
  from u have "closure broken_prompt (Some ''going away'') live_state
      = snd (attemptReconnection broken_prompt live_state)"
    by - (elim conjE, assumption)
  then have 7: "closure broken_prompt (Some ''going away'') live_state =
     live_state\<lparr>reconnectionAttempts := 3, isInitializingSession := True,
       effects :=
       [SetTimeout 2000, SendToRenderer ''session-initializing'' (Flag True), NewClient ''key'',
        SetTimeout 2000, SetTimeout 2000,
        SendToRenderer ''update-status'' (Text ''Session closed'')]\<rparr>"
    by (simp only: ev2 snd_conv)
  from t have "lastSessionParams (initial_state\<lparr>reconnectionAttempts := 1\<rparr>) = None
      \<or> maxReconnectionAttempts \<le> reconnectionAttempts (initial_state\<lparr>reconnectionAttempts := 1\<rparr>)
      \<longrightarrow> attemptReconnection always_failing (initial_state\<lparr>reconnectionAttempts := 1\<rparr>)
            = (False, emit closed_status (initial_state\<lparr>reconnectionAttempts := 1\<rparr>))"
    by - (elim conjE, assumption)
  with 8 have 9: "attemptReconnection always_failing (initial_state\<lparr>reconnectionAttempts := 1\<rparr>)
     = (False, emit closed_status (initial_state\<lparr>reconnectionAttempts := 1\<rparr>))"
    by simp
  from 1 2 3 4 5 6 7 8 9 show ?thesis
    by - (intro conjI; assumption)
qed

lemma onerror_api_key:
  "isApiKeyError text \<Longrightarrow>
     onerror text s =
       emit (SendToRenderer ''update-status'' (Text ''Error: Invalid API key''))
         (s\<lparr>lastSessionParams := None, reconnectionAttempts := maxReconnectionAttempts\<rparr>)"
  by (simp add: onerror_def sendToRenderer_def)

lemma onclose_api_key:
  "isApiKeyError text \<Longrightarrow>
     onclose text s =
       (False,
        emit (SendToRenderer ''update-status'' (Text ''Session closed: Invalid API key''))
          (s\<lparr>lastSessionParams := None, reconnectionAttempts := maxReconnectionAttempts\<rparr>))"
  by (simp add: onclose_def sendToRenderer_def)

lemma fold_interleave_exhausts:
  "TransportError text \<in> set evs \<Longrightarrow> isApiKeyError text \<Longrightarrow>
     reconnectionAttempts s \<le> maxReconnectionAttempts \<Longrightarrow>
     reconnectionAttempts (fold interleave evs s) = maxReconnectionAttempts"
proof (induction evs arbitrary: s)
  case Nil
  then show ?case by simp
next
  case (Cons a evs)
  note b = interleave_attempts [OF Cons.prems(3), of a]
  show ?case
  proof (cases "a = TransportError text")
    case True
    have "reconnectionAttempts (interleave a s) = maxReconnectionAttempts"
      using Cons.prems(2) by (simp add: True onerror_def sendToRenderer_def emit_def)
    with fold_interleave_attempts [of "interleave a s" evs] show ?thesis
      by simp
  next
    case False
    with Cons.prems(1) have "TransportError text \<in> set evs" by simp
    from Cons.IH [OF this Cons.prems(2)] b show ?thesis
      by simp
  qed
qed

text \<open>
  C5. When the text of a transport error or the reason of a closure is an API key error,
  the handler clears the stored parameters, sets the attempt counter to the maximum and
  reports \<^verbatim>\<open>Error: Invalid API key\<close> (for an error) or \<^verbatim>\<open>Session closed: Invalid API key\<close>
  (for a closure) instead of the generic status; \<^verbatim>\<open>onclose\<close> does not start the controller.
  From the state it leaves, neither the controller nor a later closure makes an attempt.
  When such an error arrives while an attempt is sleeping, whatever budget is left, the
  run ends without creating a client or opening a connection, with the parameters cleared
  and the counter at the maximum.
\<close>

theorem api_key_error_is_terminal:
  assumes "isApiKeyError text"
  shows "onerror text s =
       emit (SendToRenderer ''update-status'' (Text ''Error: Invalid API key''))
         (s\<lparr>lastSessionParams := None, reconnectionAttempts := maxReconnectionAttempts\<rparr>) \<and>
     onclose text s =
       (False,
        emit (SendToRenderer ''update-status'' (Text ''Session closed: Invalid API key''))
          (s\<lparr>lastSessionParams := None, reconnectionAttempts := maxReconnectionAttempts\<rparr>)) \<and>
     attemptReconnection env (onerror text s) = (False, emit closed_status (onerror text s)) \<and>
     attemptReconnection env (snd (onclose text s))
       = (False, emit closed_status (snd (onclose text s))) \<and>
     fst (onclose reason (onerror text s)) = False \<and>
     fst (onclose reason (snd (onclose text s))) = False \<and>
     (lastSessionParams t = Some p \<and> reconnectionAttempts t < maxReconnectionAttempts \<and>
      TransportError text \<in> set (during_delay (env (reconnectionAttempts t + 1))) \<longrightarrow>
        fst (attemptReconnection env t) = False \<and>
        filter handshake (effects (snd (attemptReconnection env t)))
          = filter handshake (effects t) \<and>
        lastSessionParams (snd (attemptReconnection env t)) = None \<and>
        reconnectionAttempts (snd (attemptReconnection env t)) = maxReconnectionAttempts)"
proof -
  note e = onerror_api_key [OF assms, of s]
  note c = onclose_api_key [OF assms, of s]
  have 3: "attemptReconnection env (onerror text s) = (False, emit closed_status (onerror text s))"
    by (rule attemptReconnection_refused) (simp add: e emit_def)
  have 4: "attemptReconnection env (snd (onclose text s))
       = (False, emit closed_status (snd (onclose text s)))"
    by (rule attemptReconnection_refused) (simp add: c emit_def)
  have 5: "fst (onclose reason (onerror text s)) = False"
    by (rule onclose_exhausted) (simp add: e emit_def)
  have 6: "fst (onclose reason (snd (onclose text s))) = False"
    by (rule onclose_exhausted) (simp add: c emit_def)
  have 7: "lastSessionParams t = Some p \<and> reconnectionAttempts t < maxReconnectionAttempts \<and>
      TransportError text \<in> set (during_delay (env (reconnectionAttempts t + 1))) \<longrightarrow>
        fst (attemptReconnection env t) = False \<and>
        filter handshake (effects (snd (attemptReconnection env t)))
          = filter handshake (effects t) \<and>
        lastSessionParams (snd (attemptReconnection env t)) = None \<and>
        reconnectionAttempts (snd (attemptReconnection env t)) = maxReconnectionAttempts"
  proof
    assume a: "lastSessionParams t = Some p \<and> reconnectionAttempts t < maxReconnectionAttempts \<and>
      TransportError text \<in> set (during_delay (env (reconnectionAttempts t + 1)))"
    let ?evs = "during_delay (env (reconnectionAttempts t + 1))"
    let ?t2 = "emit (SetTimeout reconnectionDelay)
              (t\<lparr>reconnectionAttempts := reconnectionAttempts t + 1\<rparr>)"
    from a have g: "lastSessionParams t = Some p" "reconnectionAttempts t < maxReconnectionAttempts"
      and m: "TransportError text \<in> set ?evs"
      by simp_all
    have cl: "clears_params (TransportError text)"
      using assms by simp
    have run: "attemptReconnection env t = (False, emit closed_status (fold interleave ?evs ?t2))"
      by (rule cleared_during_delay [where env = env, OF g m cl])
    have h: "filter handshake (effects (emit closed_status (fold interleave ?evs ?t2)))
        = filter handshake (effects t)"
      by (simp add: emit_def closed_status_def fold_interleave_no_handshake)
    have n: "lastSessionParams (fold interleave ?evs ?t2) = None"
      by (rule fold_interleave_clears [OF m cl])
    have "reconnectionAttempts ?t2 \<le> maxReconnectionAttempts"
      using g(2) by (simp add: emit_def)
    from fold_interleave_exhausts [OF m assms this]
    have k: "reconnectionAttempts (fold interleave ?evs ?t2) = maxReconnectionAttempts" .
    from run h n k show "fst (attemptReconnection env t) = False \<and>
        filter handshake (effects (snd (attemptReconnection env t)))
          = filter handshake (effects t) \<and>
        lastSessionParams (snd (attemptReconnection env t)) = None \<and>
        reconnectionAttempts (snd (attemptReconnection env t)) = maxReconnectionAttempts"
      by (simp add: emit_def)
  qed
  from e c 3 4 5 6 7 show ?thesis
    by - (intro conjI; assumption)
qed

lemma rejected_key_is_error: "isApiKeyError rejected_key"
  by (simp add: rejected_key_def isApiKeyError_def)

theorem api_key_error_is_terminal_witness:
  "isApiKeyError rejected_key \<and>
   lastSessionParams (onerror rejected_key live_state) = None \<and>
   reconnectionAttempts (onerror rejected_key live_state) = 3 \<and>
   effects (onerror rejected_key live_state)
     = [SendToRenderer ''update-status'' (Text ''Error: Invalid API key'')] \<and>
   onclose rejected_key live_state =
     (False,
      live_state\<lparr>lastSessionParams := None, reconnectionAttempts := 3,
        effects := [SendToRenderer ''update-status'' (Text ''Session closed: Invalid API key'')]\<rparr>) \<and>
   lastSessionParams live_state = Some stored_params \<and>
   reconnectionAttempts live_state < maxReconnectionAttempts \<and>
   TransportError rejected_key
     \<in> set (during_delay (key_rejected_while_waiting (reconnectionAttempts live_state + 1))) \<and>
   attemptReconnection key_rejected_while_waiting live_state =
     (False,
      live_state\<lparr>lastSessionParams := None, reconnectionAttempts := 3,
        effects := [SetTimeout 2000,
                    SendToRenderer ''update-status'' (Text ''Error: Invalid API key''),
                    SendToRenderer ''update-status'' (Text ''Session closed'')]\<rparr>)"
proof -
  note k = rejected_key_is_error
  note t = api_key_error_is_terminal [OF k, where s = live_state
      and env = key_rejected_while_waiting and reason = None and t = live_state
      and p = stored_params]
  have fx: "effects live_state = []"
    by (simp add: live_state_def initial_state_def)
  from t have "onerror rejected_key live_state =
       emit (SendToRenderer ''update-status'' (Text ''Error: Invalid API key''))
         (live_state\<lparr>lastSessionParams := None, reconnectionAttempts := maxReconnectionAttempts\<rparr>)"
    by - (elim conjE, assumption)
  then have e: "lastSessionParams (onerror rejected_key live_state) = None"
    "reconnectionAttempts (onerror rejected_key live_state) = 3"
    "effects (onerror rejected_key live_state)
     = [SendToRenderer ''update-status'' (Text ''Error: Invalid API key'')]"
    by (simp_all add: emit_def fx maxReconnectionAttempts_def)
  from t have "onclose rejected_key live_state =
       (False,
        emit (SendToRenderer ''update-status'' (Text ''Session closed: Invalid API key''))
          (live_state\<lparr>lastSessionParams := None, reconnectionAttempts := maxReconnectionAttempts\<rparr>))"
    by - (elim conjE, assumption)
  then have c: "onclose rejected_key live_state =
     (False,
      live_state\<lparr>lastSessionParams := None, reconnectionAttempts := 3,
        effects := [SendToRenderer ''update-status'' (Text ''Session closed: Invalid API key'')]\<rparr>)"
    by (simp add: emit_def fx maxReconnectionAttempts_def)
  have g: "lastSessionParams live_state = Some stored_params"
    "reconnectionAttempts live_state < maxReconnectionAttempts"
    "TransportError rejected_key
     \<in> set (during_delay (key_rejected_while_waiting (reconnectionAttempts live_state + 1)))"
    by (simp_all add: live_state_def initial_state_def maxReconnectionAttempts_def
          key_rejected_while_waiting_def)
  have r: "attemptReconnection key_rejected_while_waiting live_state =
     (False,
      live_state\<lparr>lastSessionParams := None, reconnectionAttempts := 3,
        effects := [SetTimeout 2000,
                    SendToRenderer ''update-status'' (Text ''Error: Invalid API key''),
                    SendToRenderer ''update-status'' (Text ''Session closed'')]\<rparr>)"
    using k
    by (simp add: cleared_during_delay [where env = key_rejected_while_waiting, OF g(1,2) g(3)]
          key_rejected_while_waiting_def onerror_def sendToRenderer_def emit_def closed_status_def
          reconnectionDelay_def maxReconnectionAttempts_def)
       (simp add: live_state_def initial_state_def)
  from k e c g r show ?thesis
    by - (intro conjI; assumption)
qed

lemma close_session_params: "lastSessionParams (close_session s) = None"
  by (simp add: close_session_def emit_def Let_def split: option.splits)

lemma close_session_no_current: "no_current_session (close_session s)"
  by (simp add: close_session_def emit_def Let_def no_current_session_def split: option.splits)

lemma interleave_no_current:
  "no_current_session s \<Longrightarrow> no_current_session (interleave ev s)"
  by (cases ev)
     (auto simp: close_session_def onerror_def emit_def sendToRenderer_def Let_def
        no_current_session_def split: option.splits)

lemma fold_interleave_no_current:
  "no_current_session s \<Longrightarrow> no_current_session (fold interleave evs s)"
  by (induction evs arbitrary: s) (simp_all add: interleave_no_current)

lemma fold_interleave_closes:
  "CloseSession \<in> set evs \<Longrightarrow> no_current_session (fold interleave evs s)"
proof (induction evs arbitrary: s)
  case Nil
  then show ?case by simp
next
  case (Cons a evs)
  show ?case
  proof (cases "a = CloseSession")
    case True
    then show ?thesis
      by (simp add: close_session_no_current fold_interleave_no_current)
  next
    case False
    with Cons.prems have "CloseSession \<in> set evs" by simp
    from Cons.IH [OF this] show ?thesis by simp
  qed
qed

text \<open>
  C6. Closing a session clears the stored parameters, and the controller tests them first:
  called after a close it makes no attempt and only reports \<^verbatim>\<open>Session closed\<close>. When the
  close happens while an attempt is sleeping, the timer has been set and runs out, the
  read of the cleared parameters fails inside the \<^verbatim>\<open>try\<close>, and the run ends by reporting
  \<^verbatim>\<open>Session closed\<close>: no client is created, no connection is opened, the parameters
  stay cleared and there is no current session.
\<close>

theorem close_session_cancels_reconnection:
  "lastSessionParams (close_session s) = None \<and>
   attemptReconnection env (close_session s) = (False, emit closed_status (close_session s)) \<and>
   (lastSessionParams t = Some p \<and> reconnectionAttempts t < maxReconnectionAttempts \<and>
    CloseSession \<in> set (during_delay (env (reconnectionAttempts t + 1))) \<longrightarrow>
      attemptReconnection env t =
        (False,
         emit closed_status
           (fold interleave (during_delay (env (reconnectionAttempts t + 1)))
              (emit (SetTimeout reconnectionDelay)
                 (t\<lparr>reconnectionAttempts := reconnectionAttempts t + 1\<rparr>)))) \<and>
      filter handshake (effects (snd (attemptReconnection env t)))
        = filter handshake (effects t) \<and>
      lastSessionParams (snd (attemptReconnection env t)) = None \<and>
      no_current_session (snd (attemptReconnection env t)))"
proof -
  have 1: "lastSessionParams (close_session s) = None"
    by (rule close_session_params)
  have 2: "attemptReconnection env (close_session s) = (False, emit closed_status (close_session s))"
    by (rule attemptReconnection_refused) (simp add: 1)
  have 3: "lastSessionParams t = Some p \<and> reconnectionAttempts t < maxReconnectionAttempts \<and>
    CloseSession \<in> set (during_delay (env (reconnectionAttempts t + 1))) \<longrightarrow>
      attemptReconnection env t =
        (False,
         emit closed_status
           (fold interleave (during_delay (env (reconnectionAttempts t + 1)))
              (emit (SetTimeout reconnectionDelay)
                 (t\<lparr>reconnectionAttempts := reconnectionAttempts t + 1\<rparr>)))) \<and>
      filter handshake (effects (snd (attemptReconnection env t)))
        = filter handshake (effects t) \<and>
      lastSessionParams (snd (attemptReconnection env t)) = None \<and>
      no_current_session (snd (attemptReconnection env t))"
  proof
    assume a: "lastSessionParams t = Some p \<and> reconnectionAttempts t < maxReconnectionAttempts \<and>
      CloseSession \<in> set (during_delay (env (reconnectionAttempts t + 1)))"
    let ?evs = "during_delay (env (reconnectionAttempts t + 1))"
    let ?t2 = "emit (SetTimeout reconnectionDelay)
              (t\<lparr>reconnectionAttempts := reconnectionAttempts t + 1\<rparr>)"
    from a have g: "lastSessionParams t = Some p" "reconnectionAttempts t < maxReconnectionAttempts"
      and m: "CloseSession \<in> set ?evs"
      by simp_all
    have cl: "clears_params CloseSession"
      by simp
    have run: "attemptReconnection env t = (False, emit closed_status (fold interleave ?evs ?t2))"
      by (rule cleared_during_delay [where env = env, OF g m cl])
    have h: "filter handshake (effects (emit closed_status (fold interleave ?evs ?t2)))
        = filter handshake (effects t)"
      by (simp add: emit_def closed_status_def fold_interleave_no_handshake)
    have n: "lastSessionParams (emit closed_status (fold interleave ?evs ?t2)) = None"
      using fold_interleave_clears [OF m cl, of ?t2] by (simp add: emit_def)
    have c: "no_current_session (emit closed_status (fold interleave ?evs ?t2))"
      using fold_interleave_closes [OF m, of ?t2] by (simp add: emit_def no_current_session_def)
    from run h n c show "attemptReconnection env t =
        (False, emit closed_status (fold interleave ?evs ?t2)) \<and>
      filter handshake (effects (snd (attemptReconnection env t)))
        = filter handshake (effects t) \<and>
      lastSessionParams (snd (attemptReconnection env t)) = None \<and>
      no_current_session (snd (attemptReconnection env t))"
      by simp
  qed
  from 1 2 3 show ?thesis
    by - (intro conjI; assumption)
qed

theorem close_session_cancels_reconnection_witness:
  "lastSessionParams live_state = Some stored_params \<and>
   reconnectionAttempts live_state < maxReconnectionAttempts \<and>
   CloseSession \<in> set (during_delay (closed_while_waiting (reconnectionAttempts live_state + 1))) \<and>
   attemptReconnection closed_while_waiting live_state =
     (False,
      live_state\<lparr>lastSessionParams := None, reconnectionAttempts := 1,
        geminiSessionRef := Some None,
        effects := [SetTimeout 2000, StopCapture, SessionClose 4,
                    SendToRenderer ''update-status'' (Text ''Session closed'')]\<rparr>) \<and>
   filter handshake (effects (snd (attemptReconnection closed_while_waiting live_state))) = [] \<and>
   lastSessionParams (close_session live_state) = None"
proof -
  note t = close_session_cancels_reconnection [where s = live_state
      and env = closed_while_waiting and t = live_state and p = stored_params]
  have g: "lastSessionParams live_state = Some stored_params"
    "reconnectionAttempts live_state < maxReconnectionAttempts"
    "CloseSession \<in> set (during_delay (closed_while_waiting (reconnectionAttempts live_state + 1)))"
    by (simp_all add: live_state_def initial_state_def maxReconnectionAttempts_def
          closed_while_waiting_def)
  from t have i: "lastSessionParams live_state = Some stored_params \<and>
    reconnectionAttempts live_state < maxReconnectionAttempts \<and>
    CloseSession \<in> set (during_delay (closed_while_waiting (reconnectionAttempts live_state + 1)))
    \<longrightarrow>
      attemptReconnection closed_while_waiting live_state =
        (False,
         emit closed_status
           (fold interleave
              (during_delay (closed_while_waiting (reconnectionAttempts live_state + 1)))
              (emit (SetTimeout reconnectionDelay)
                 (live_state\<lparr>reconnectionAttempts := reconnectionAttempts live_state + 1\<rparr>)))) \<and>
      filter handshake (effects (snd (attemptReconnection closed_while_waiting live_state)))
        = filter handshake (effects live_state) \<and>
      lastSessionParams (snd (attemptReconnection closed_while_waiting live_state)) = None \<and>
      no_current_session (snd (attemptReconnection closed_while_waiting live_state))"
    by - (elim conjE, assumption)
  note all = mp [OF i conjI [OF g(1) conjI [OF g(2) g(3)]]]
  note r = all [THEN conjunct1] and h = all [THEN conjunct2, THEN conjunct1]
  have r': "attemptReconnection closed_while_waiting live_state =
     (False,
      live_state\<lparr>lastSessionParams := None, reconnectionAttempts := 1,
        geminiSessionRef := Some None,
        effects := [SetTimeout 2000, StopCapture, SessionClose 4,
                    SendToRenderer ''update-status'' (Text ''Session closed'')]\<rparr>)"
    by (subst r)
       (simp add: closed_while_waiting_def close_session_def emit_def closed_status_def
          reconnectionDelay_def Let_def live_state_def initial_state_def)
  have h': "filter handshake (effects (snd (attemptReconnection closed_while_waiting live_state))) = []"
    by (simp add: h) (simp add: live_state_def initial_state_def)
  from t have c: "lastSessionParams (close_session live_state) = None"
    by - (elim conjE, assumption)
  from g r' h' c show ?thesis
    by - (intro conjI; assumption)
qed

lemma reinitialize_busy:
  "isInitializingSession s \<Longrightarrow> initializeGeminiSession now pc oc p True s = (ReturnedFalse, s)"
  by (simp add: initializeGeminiSession_def initialize_begin_def)

lemma reinitialize_idle:
  "\<not> isInitializingSession s \<Longrightarrow> \<not> getSystemPrompt_throws pc \<Longrightarrow>
     initializeGeminiSession now pc oc p True s =
       ((case oc of Connected x \<Rightarrow> ReturnedSession x | ConnectFailed \<Rightarrow> ReturnedNull),
        s\<lparr>effects := effects s @ initialization_effects p\<rparr>)"
  by (cases s; cases oc)
     (simp_all add: initializeGeminiSession_def initialize_begin_def initialize_connect_def
        initialize_settle_def sendToRenderer_def emit_def Let_def initialization_effects_def)

lemma trim_empty: "trim [] = []"
  by (simp add: trim_def)

lemma replay_filter:
  "filter (\<lambda>t. t \<noteq> [] \<and> trim t \<noteq> []) ts = filter (\<lambda>t. trim t \<noteq> []) ts"
  by (rule filter_cong) (auto simp: trim_empty)

lemma sendReconnectionContext_replays:
  "sendReconnectionContext r =
     (case geminiSessionRef r of
        Some (Some current) \<Rightarrow>
          if replayed (conversationHistory r) = [] then r
          else emit (SendRealtimeInput current
                 (context_header @ join [CHR 0x0A] (replayed (conversationHistory r)))) r
      | _ \<Rightarrow> r)"
  by (simp add: sendReconnectionContext_def replayed_def replay_filter Let_def
        split: option.splits)

lemma quiet_successful_attempt:
  assumes "lastSessionParams s = Some p" "\<not> isInitializingSession s"
    "geminiSessionRef s = Some current"
    "during_delay e = []" "\<not> getSystemPrompt_throws (projects e)"
    "connect e = Connected session"
  shows "reconnection_attempt e s =
     Reconnected (sendReconnectionContext
       (s\<lparr>reconnectionAttempts := 0, geminiSessionRef := Some (Some session),
          effects := effects s @ SetTimeout reconnectionDelay # initialization_effects p\<rparr>))"
  using assms
  by (cases s) (simp add: reconnection_attempt_def Let_def emit_def reinitialize_idle)

text \<open>
  C7. An attempt that finds the parameters stored, no initialization in flight, the
  session reference installed, nothing interfering during its delay, a system prompt that
  is built and a connection that succeeds: the controller returns \<^verbatim>\<open>true\<close>, installs the new session, resets the
  counter to zero and then replays the context on the state with the counter already
  reset. The replay sends one text frame to the new session: the fixed header (the
  questions asked so far, answer the last one) followed by the transcripts of all turns,
  in order, joined by newlines, without the model's responses and without the transcripts
  that are empty or blank. When no transcript is left to replay, no frame is sent.
\<close>

theorem reconnection_replays_transcripts:
  assumes "lastSessionParams s = Some p"
    and "reconnectionAttempts s < maxReconnectionAttempts"
    and "\<not> isInitializingSession s"
    and "geminiSessionRef s = Some current"
    and "during_delay (env (reconnectionAttempts s + 1)) = []"
    and "\<not> getSystemPrompt_throws (projects (env (reconnectionAttempts s + 1)))"
    and "connect (env (reconnectionAttempts s + 1)) = Connected session"
  shows "fst (attemptReconnection env s) = True \<and>
    reconnectionAttempts (snd (attemptReconnection env s)) = 0 \<and>
    geminiSessionRef (snd (attemptReconnection env s)) = Some (Some session) \<and>
    effects (snd (attemptReconnection env s)) =
      effects s @ SetTimeout reconnectionDelay # initialization_effects p
      @ (if replayed (conversationHistory s) = [] then []
         else [SendRealtimeInput session
                 (context_header @ join [CHR 0x0A] (replayed (conversationHistory s)))]) \<and>
    replayed (conversationHistory s)
      = filter (\<lambda>t. trim t \<noteq> []) (map transcription (conversationHistory s)) \<and>
    snd (attemptReconnection env s) =
      sendReconnectionContext
        (s\<lparr>reconnectionAttempts := 0, geminiSessionRef := Some (Some session),
           effects := effects s @ SetTimeout reconnectionDelay # initialization_effects p\<rparr>)"
proof -
  let ?r = "s\<lparr>reconnectionAttempts := 0, geminiSessionRef := Some (Some session),
           effects := effects s @ SetTimeout reconnectionDelay # initialization_effects p\<rparr>"
  have a: "reconnection_attempt (env (reconnectionAttempts s + 1)) s
      = Reconnected (sendReconnectionContext ?r)"
    by (rule quiet_successful_attempt [OF assms(1,3,4,5,6,7)])
  have run: "attemptReconnection env s = (True, sendReconnectionContext ?r)"
    using assms(1,2) a by (simp add: attemptReconnection.simps [of env s])
  have 1: "fst (attemptReconnection env s) = True"
    by (simp add: run)
  have 2: "reconnectionAttempts (snd (attemptReconnection env s)) = 0"
    by (simp add: run sendReconnectionContext_replays emit_def)
  have 3: "geminiSessionRef (snd (attemptReconnection env s)) = Some (Some session)"
    by (simp add: run sendReconnectionContext_replays emit_def)
  have 4: "effects (snd (attemptReconnection env s)) =
      effects s @ SetTimeout reconnectionDelay # initialization_effects p
      @ (if replayed (conversationHistory s) = [] then []
         else [SendRealtimeInput session
                 (context_header @ join [CHR 0x0A] (replayed (conversationHistory s)))])"
    by (simp add: run sendReconnectionContext_replays emit_def)
  have 5: "replayed (conversationHistory s)
      = filter (\<lambda>t. trim t \<noteq> []) (map transcription (conversationHistory s))"
    by (simp add: replayed_def)
  have 6: "snd (attemptReconnection env s) = sendReconnectionContext ?r"
    by (simp add: run)
  from 1 2 3 4 5 6 show ?thesis
    by - (intro conjI; assumption)
qed

theorem reconnection_replays_transcripts_witness:
  "lastSessionParams answered_session = Some stored_params \<and>
   reconnectionAttempts answered_session < maxReconnectionAttempts \<and>
   \<not> isInitializingSession answered_session \<and>
   geminiSessionRef answered_session = Some (Some 4) \<and>
   during_delay (second_attempt_connects (reconnectionAttempts answered_session + 1)) = [] \<and>
   \<not> getSystemPrompt_throws
       (projects (second_attempt_connects (reconnectionAttempts answered_session + 1))) \<and>
   connect (second_attempt_connects (reconnectionAttempts answered_session + 1)) = Connected 9 \<and>
   fst (attemptReconnection second_attempt_connects answered_session) = True \<and>
   reconnectionAttempts (snd (attemptReconnection second_attempt_connects answered_session)) = 0 \<and>
   effects (snd (attemptReconnection second_attempt_connects answered_session)) =
     [SetTimeout 2000, SendToRenderer ''session-initializing'' (Flag True), NewClient ''key'',
      LiveConnect stored_params, SendToRenderer ''session-initializing'' (Flag False),
      SendRealtimeInput 9
        (''Till now all these questions were asked in the interview, answer the last one please:''
         @ [CHR 0x0A, CHR 0x0A] @ ''q1'' @ [CHR 0x0A] @ ''q3'')]"
proof -
  have g: "lastSessionParams answered_session = Some stored_params"
    "reconnectionAttempts answered_session < maxReconnectionAttempts"
    "\<not> isInitializingSession answered_session"
    "geminiSessionRef answered_session = Some (Some 4)"
    "during_delay (second_attempt_connects (reconnectionAttempts answered_session + 1)) = []"
    "\<not> getSystemPrompt_throws
       (projects (second_attempt_connects (reconnectionAttempts answered_session + 1)))"
    "connect (second_attempt_connects (reconnectionAttempts answered_session + 1)) = Connected 9"
    by (simp_all add: answered_session_def live_state_def initial_state_def
          maxReconnectionAttempts_def second_attempt_connects_def getSystemPrompt_throws_def)
  note t = reconnection_replays_transcripts
      [where env = second_attempt_connects and s = answered_session, OF g]
  have h: "conversationHistory answered_session = three_turns" "effects answered_session = []"
    by (simp_all add: answered_session_def live_state_def initial_state_def)
  have r: "replayed three_turns = [''q1'', ''q3'']"
    by (simp add: replayed_def three_turns_def trim_def is_white_space_def)
  from t have 1: "fst (attemptReconnection second_attempt_connects answered_session) = True"
    by - (elim conjE, assumption)
  from t have 2:
    "reconnectionAttempts (snd (attemptReconnection second_attempt_connects answered_session)) = 0"
    by - (elim conjE, assumption)
  from t have "effects (snd (attemptReconnection second_attempt_connects answered_session)) =
      effects answered_session @ SetTimeout reconnectionDelay # initialization_effects stored_params
      @ (if replayed (conversationHistory answered_session) = [] then []
         else [SendRealtimeInput 9
                 (context_header @ join [CHR 0x0A] (replayed (conversationHistory answered_session)))])"
    by - (elim conjE, assumption)
  then have 3: "effects (snd (attemptReconnection second_attempt_connects answered_session)) =
     [SetTimeout 2000, SendToRenderer ''session-initializing'' (Flag True), NewClient ''key'',
      LiveConnect stored_params, SendToRenderer ''session-initializing'' (Flag False),
      SendRealtimeInput 9
        (''Till now all these questions were asked in the interview, answer the last one please:''
         @ [CHR 0x0A, CHR 0x0A] @ ''q1'' @ [CHR 0x0A] @ ''q3'')]"
    by (simp add: h r reconnectionDelay_def initialization_effects_def context_header_def
          stored_params_def)
  from g 1 2 3 show ?thesis
    by - (intro conjI; assumption)
qed

section \<open>Properties of the initialization\<close>

lemma initialize_begin_busy: "isInitializingSession s \<Longrightarrow> initialize_begin params r s = None"
  by (simp add: initialize_begin_def)

lemma initialize_begin_idle:
  "\<not> isInitializingSession s \<Longrightarrow>
     \<exists>s1. initialize_begin params r s = Some s1 \<and> isInitializingSession s1"
  by (simp add: initialize_begin_def Let_def sendToRenderer_def emit_def)

lemma initialize_connect_flag:
  "initialize_connect now pc params r s = Some s1 \<Longrightarrow>
     isInitializingSession s1 = isInitializingSession s"
  by (auto simp: initialize_connect_def initializeNewSession_def emit_def split: if_splits)

lemma initialize_settle_flag: "\<not> isInitializingSession (snd (initialize_settle outcome s))"
  by (cases outcome) (simp_all add: initialize_settle_def sendToRenderer_def emit_def Let_def)

lemma loop_step_one_in_flight:
  assumes "one_in_flight y"
  shows "one_in_flight (loop_step y ev)"
proof -
  obtain s calls where y: "y = (s, calls)"
    by (cases y)
  from assms y have inv: "length calls \<le> 1" "calls = [] \<or> isInitializingSession s"
    by (simp_all add: one_in_flight_def)
  show ?thesis
  proof (cases ev)
    case (Start params r)
    show ?thesis
    proof (cases "isInitializingSession s")
      case True
      with inv show ?thesis
        by (simp add: y Start initialize_begin_busy one_in_flight_def)
    next
      case False
      from initialize_begin_idle [OF False, of params r]
      obtain s1 where "initialize_begin params r s = Some s1" "isInitializingSession s1"
        by blast
      with False inv show ?thesis
        by (simp add: y Start one_in_flight_def)
    qed
  next
    case (Resume k now pc outcome)
    show ?thesis
    proof (cases "k < length calls")
      case False
      with inv show ?thesis
        by (simp add: y Resume one_in_flight_def)
    next
      case True
      with inv(1) obtain c where c: "calls = [c]" "k = 0"
        by (cases calls) auto
      from inv(2) c have f: "isInitializingSession s"
        by simp
      show ?thesis
      proof (cases c)
        case (AwaitingTools params r)
        show ?thesis
        proof (cases "initialize_connect now pc params r s")
          case None
          then show ?thesis
            by (simp add: y Resume c AwaitingTools one_in_flight_def)
        next
          case (Some s1)
          from initialize_connect_flag [OF Some] f show ?thesis
            by (simp add: y Resume c AwaitingTools Some one_in_flight_def)
        qed
      next
        case AwaitingConnect
        then show ?thesis
          by (simp add: y Resume c one_in_flight_def)
      qed
    qed
  qed
qed

lemma event_loop_one_in_flight:
  "one_in_flight y \<Longrightarrow> one_in_flight (event_loop y events)"
  unfolding event_loop_def
  by (induction events arbitrary: y) (simp_all add: loop_step_one_in_flight)

text \<open>
  What holds of the guard: a call that finds \<^verbatim>\<open>isInitializingSession\<close> set returns \<^verbatim>\<open>false\<close>
  and leaves the state as it is (no client, no handshake, no effect at all); the flag is
  cleared when the connection settles, whether it succeeded or failed; and on the event
  loop, started with no initialization in flight, at most one call is suspended after any
  sequence of start requests and resumptions, and the flag is set while one is.
\<close>

lemma one_initialization_in_flight:
  "(isInitializingSession s \<longrightarrow>
      initializeGeminiSession now pc outcome params r s = (ReturnedFalse, s) \<and>
      loop_step (s, calls) (Start params r) = (s, calls)) \<and>
   \<not> isInitializingSession (snd (initialize_settle (Connected session) s)) \<and>
   \<not> isInitializingSession (snd (initialize_settle ConnectFailed s)) \<and>
   (\<not> isInitializingSession s \<longrightarrow>
      length (snd (event_loop (s, []) events)) \<le> 1 \<and>
      (snd (event_loop (s, []) events) = [] \<or>
       isInitializingSession (fst (event_loop (s, []) events))))"
proof -
  have 1: "isInitializingSession s \<longrightarrow>
      initializeGeminiSession now pc outcome params r s = (ReturnedFalse, s) \<and>
      loop_step (s, calls) (Start params r) = (s, calls)"
    by (simp add: initializeGeminiSession_def initialize_begin_busy)
  note 2 = initialize_settle_flag [of "Connected session" s]
  note 3 = initialize_settle_flag [of ConnectFailed s]
  have 5: "\<not> isInitializingSession s \<longrightarrow>
      length (snd (event_loop (s, []) events)) \<le> 1 \<and>
      (snd (event_loop (s, []) events) = [] \<or>
       isInitializingSession (fst (event_loop (s, []) events)))"
  proof
    assume "\<not> isInitializingSession s"
    then have "one_in_flight (s, [])"
      by (simp add: one_in_flight_def)
    from event_loop_one_in_flight [OF this, of events]
    show "length (snd (event_loop (s, []) events)) \<le> 1 \<and>
      (snd (event_loop (s, []) events) = [] \<or>
       isInitializingSession (fst (event_loop (s, []) events)))"
      by (simp add: one_in_flight_def)
  qed
  from 1 2 3 5 show ?thesis
    by - (intro conjI; assumption)
qed

text \<open>
  C8, where the code departs from the claim. In the first version of the file the call
  \<^verbatim>\<open>initializeGeminiSession('key', '', 'interview', 'en-US')\<close>, with no project active,
  hands the empty array to \<^verbatim>\<open>getSystemPrompt\<close>, which throws before the \<^verbatim>\<open>try\<close>: the call
  ends with the flag set, a client created and no connection requested. The flag is
  never cleared, and the next call, whatever it would hand over, returns \<^verbatim>\<open>false\<close> at the
  guard. The same two calls with a string as the projects argument: the first runs to
  its end and clears the flag, the second is accepted.
\<close>

theorem prompt_exception_keeps_flag:
  "initializeGeminiSession 7 (ProjectArray []) (Connected 9) stored_params False live_state
     = (Threw,
        live_state\<lparr>isInitializingSession := True,
          effects := [SendToRenderer ''session-initializing'' (Flag True), NewClient ''key'']\<rparr>) \<and>
   initializeGeminiSession 8 (ProjectString []) (Connected 9) stored_params False
       (snd (initializeGeminiSession 7 (ProjectArray []) (Connected 9) stored_params False
               live_state))
     = (ReturnedFalse,
        live_state\<lparr>isInitializingSession := True,
          effects := [SendToRenderer ''session-initializing'' (Flag True), NewClient ''key'']\<rparr>) \<and>
   fst (initializeGeminiSession 7 (ProjectString []) ConnectFailed stored_params False live_state)
     = ReturnedNull \<and>
   \<not> isInitializingSession
       (snd (initializeGeminiSession 7 (ProjectString []) ConnectFailed stored_params False
               live_state)) \<and>
   fst (initializeGeminiSession 8 (ProjectString []) (Connected 9) stored_params False
          (snd (initializeGeminiSession 7 (ProjectString []) ConnectFailed stored_params False
                  live_state)))
     = ReturnedSession 9"
  by (simp add: initializeGeminiSession_def initialize_begin_def initialize_connect_def
        initialize_settle_def initializeNewSession_def getSystemPrompt_throws_def
        sendToRenderer_def emit_def Let_def live_state_def initial_state_def stored_params_def)

lemma initialize_begin_fresh:
  "\<not> isInitializingSession s \<Longrightarrow>
     initialize_begin params False s =
       Some (s\<lparr>isInitializingSession := True, lastSessionParams := Some params,
               reconnectionAttempts := 0,
               effects := effects s @ [SendToRenderer ''session-initializing'' (Flag True),
                                       NewClient (apiKey params)]\<rparr>)"
  by (simp add: initialize_begin_def sendToRenderer_def emit_def Let_def)

lemma initialize_rest_keeps_params:
  "initialize_connect now pc params r s = Some s1 \<Longrightarrow>
     lastSessionParams s1 = lastSessionParams s \<and> reconnectionAttempts s1 = reconnectionAttempts s"
  "lastSessionParams (snd (initialize_settle outcome s)) = lastSessionParams s"
  "reconnectionAttempts (snd (initialize_settle outcome s)) = reconnectionAttempts s"
  by (cases outcome;
      auto simp: initialize_connect_def initialize_settle_def initializeNewSession_def
        sendToRenderer_def emit_def Let_def split: if_splits)+

lemma onerror_flag: "isInitializingSession (onerror text s) = isInitializingSession s"
  by (simp add: onerror_def sendToRenderer_def emit_def)

lemma fresh_start_resets:
  assumes "\<not> isInitializingSession u"
  shows "lastSessionParams (snd (initializeGeminiSession now pc outcome params False u)) = Some params \<and>
      reconnectionAttempts (snd (initializeGeminiSession now pc outcome params False u)) = 0"
proof (cases "initialize_connect now pc params False
    (u\<lparr>isInitializingSession := True, lastSessionParams := Some params,
       reconnectionAttempts := 0,
       effects := effects u @ [SendToRenderer ''session-initializing'' (Flag True),
                               NewClient (apiKey params)]\<rparr>)")
  case None
  with assms show ?thesis
    by (simp add: initializeGeminiSession_def initialize_begin_fresh)
next
  case (Some s2)
  from initialize_rest_keeps_params(1) [OF Some] assms Some show ?thesis
    by (simp add: initializeGeminiSession_def initialize_begin_fresh
          initialize_rest_keeps_params(2,3))
qed

text \<open>
  C10. A fresh start (not a reconnection) that passes the guard stores the new parameters
  and resets the attempt counter to zero in its first segment, before the system prompt
  is built and the connection requested, and they are still so when the call ends,
  whatever the outcome of the connection and also when the call throws. This holds in
  particular from the state an API key error leaves behind, where the parameters are
  cleared and the counter is at the maximum.
\<close>

theorem fresh_start_lifts_lockout:
  "(\<not> isInitializingSession s \<longrightarrow>
      map_option lastSessionParams (initialize_begin params False s) = Some (Some params) \<and>
      map_option reconnectionAttempts (initialize_begin params False s) = Some 0 \<and>
      lastSessionParams (snd (initializeGeminiSession now pc outcome params False s))
        = Some params \<and>
      reconnectionAttempts (snd (initializeGeminiSession now pc outcome params False s)) = 0) \<and>
   (isApiKeyError msg \<and> \<not> isInitializingSession s \<longrightarrow>
      lastSessionParams (onerror msg s) = None \<and>
      reconnectionAttempts (onerror msg s) = maxReconnectionAttempts \<and>
      lastSessionParams
        (snd (initializeGeminiSession now pc outcome params False (onerror msg s)))
        = Some params \<and>
      reconnectionAttempts
        (snd (initializeGeminiSession now pc outcome params False (onerror msg s)))
        = 0)"
proof -
  have 1: "\<not> isInitializingSession s \<longrightarrow>
      map_option lastSessionParams (initialize_begin params False s) = Some (Some params) \<and>
      map_option reconnectionAttempts (initialize_begin params False s) = Some 0 \<and>
      lastSessionParams (snd (initializeGeminiSession now pc outcome params False s))
        = Some params \<and>
      reconnectionAttempts (snd (initializeGeminiSession now pc outcome params False s)) = 0"
    using fresh_start_resets [of s now pc outcome params] by (simp add: initialize_begin_fresh)
  have 2: "isApiKeyError msg \<and> \<not> isInitializingSession s \<longrightarrow>
      lastSessionParams (onerror msg s) = None \<and>
      reconnectionAttempts (onerror msg s) = maxReconnectionAttempts \<and>
      lastSessionParams
        (snd (initializeGeminiSession now pc outcome params False (onerror msg s)))
        = Some params \<and>
      reconnectionAttempts
        (snd (initializeGeminiSession now pc outcome params False (onerror msg s)))
        = 0"
    using fresh_start_resets [of "onerror msg s" now pc outcome params]
    by (simp add: onerror_flag) (simp add: onerror_def sendToRenderer_def emit_def)
  from 1 2 show ?thesis
    by - (intro conjI; assumption)
qed

theorem fresh_start_lifts_lockout_witness:
  "isApiKeyError rejected_key \<and> \<not> isInitializingSession live_state \<and>
   lastSessionParams (onerror rejected_key live_state) = None \<and>
   reconnectionAttempts (onerror rejected_key live_state) = maxReconnectionAttempts \<and>
   lastSessionParams
     (snd (initializeGeminiSession 7 (ProjectString []) ConnectFailed stored_params False
             (onerror rejected_key live_state))) = Some stored_params \<and>
   reconnectionAttempts
     (snd (initializeGeminiSession 7 (ProjectString []) ConnectFailed stored_params False
             (onerror rejected_key live_state))) = 0 \<and>
   map_option reconnectionAttempts (initialize_begin stored_params False live_state) = Some 0"
proof -
  note k = rejected_key_is_error
  have f: "\<not> isInitializingSession live_state"
    by (simp add: live_state_def initial_state_def)
  note t = fresh_start_lifts_lockout [where s = live_state and msg = rejected_key
      and params = stored_params and now = 7 and outcome = ConnectFailed
      and pc = "ProjectString []"]
  note a = mp [OF t [THEN conjunct1] f]
  note b = mp [OF t [THEN conjunct2] conjI [OF k f]]
  note 1 = b [THEN conjunct1]
  note 2 = b [THEN conjunct2, THEN conjunct1]
  note 3 = b [THEN conjunct2, THEN conjunct2, THEN conjunct1]
  note 4 = b [THEN conjunct2, THEN conjunct2, THEN conjunct2]
  note 5 = a [THEN conjunct2, THEN conjunct1]
  from k f 1 2 3 4 5 show ?thesis
    by - (intro conjI; assumption)
qed

end
